theory Spec2Isabelle
  imports Complex_Main "HOL-Library.Multiset"
begin

section \<open>Strings\<close>

text \<open>
  Strings are byte lists. \<open>lower\<close> is Python's \<^verbatim>\<open>str.lower\<close> on the ASCII letters; every
  pattern the program searches for is ASCII and none of them can be produced by lowercasing
  a non-ASCII letter, so the bytes outside \<open>A-Z\<close> are left as they are.
  \<open>contains sub s\<close> is Python's \<^verbatim>\<open>sub in s\<close>.
\<close>

definition lower_char :: "char \<Rightarrow> char" where
  "lower_char c =
     (case map_of (zip ''ABCDEFGHIJKLMNOPQRSTUVWXYZ'' ''abcdefghijklmnopqrstuvwxyz'') c of
        Some d \<Rightarrow> d
      | None \<Rightarrow> c)"

definition lower :: "string \<Rightarrow> string" where
  "lower s = map lower_char s"

fun contains :: "string \<Rightarrow> string \<Rightarrow> bool" where
  "contains sub [] = (sub = [])"
| "contains sub (c # cs) = (take (length sub) (c # cs) = sub \<or> contains sub cs)"

section \<open>Tables\<close>

text \<open>
  A pandas \<^verbatim>\<open>DataFrame\<close> as the readers return it: the column names in table order and
  the rows, each row giving the cell under a column name. A cell is a string, a number
  (a float is the exact rational value it holds), a timestamp, or missing (\<open>Null\<close>: NaN, None
  or NaT).
\<close>

record stamp =
  dt_year :: int
  dt_month :: int
  dt_day :: int
  dt_hour :: int
  dt_minute :: int
  dt_second :: int

datatype cell = Str string | Num rat | Stamp stamp | Null

type_synonym row = "string \<Rightarrow> cell"

record dataframe =
  columns :: "string list"
  rows :: "row list"

datatype error =
    ValueError string
  | KeyError string
  | AttributeError
  | TypeError
  | DateParseError
  | IndexError

section \<open>Column resolution (\<^verbatim>\<open>process_trades\<close>, first stage)\<close>

definition is_datetime_col :: "string \<Rightarrow> bool" where
  "is_datetime_col col \<longleftrightarrow> contains ''date'' (lower col) \<or> contains ''time'' (lower col)"

definition find_datetime_col :: "string list \<Rightarrow> error + string" where
  "find_datetime_col cols =
     (case find is_datetime_col cols of
        None \<Rightarrow> Inl (ValueError ''Could not find Date/Time column in data'')
      | Some col \<Rightarrow> Inr col)"

definition find_type_col :: "string list \<Rightarrow> string option" where
  "find_type_col cols = find (\<lambda>col. lower col = ''type'') cols"

definition pnl_pass1 :: "string \<Rightarrow> bool" where
  "pnl_pass1 col \<longleftrightarrow>
     (contains ''p&l'' (lower col) \<or> contains ''pnl'' (lower col) \<or> contains ''profit'' (lower col))
     \<and> (contains ''usd'' (lower col) \<or> contains ''net'' (lower col))"

definition pnl_pass2 :: "string \<Rightarrow> bool" where
  "pnl_pass2 col \<longleftrightarrow> contains ''p&l'' (lower col) \<or> contains ''pnl'' (lower col)"

text \<open>Lines 109-122: the two loops over the columns and the raise that follows them.\<close>

definition find_pnl_col :: "string list \<Rightarrow> error + string" where
  "find_pnl_col cols =
     (case find pnl_pass1 cols of
        Some col \<Rightarrow> Inr col
      | None \<Rightarrow>
          (case find pnl_pass2 cols of
             Some col \<Rightarrow> Inr col
           | None \<Rightarrow> Inl (ValueError ''Could not find P&L column in data'')))"

section \<open>Loading (\<^verbatim>\<open>load_data\<close>)\<close>

text \<open>
  \<^verbatim>\<open>all_sheets\<close> is the ordered dictionary \<^verbatim>\<open>pd.read_excel(filepath, sheet_name=None)\<close>
  returns: the sheets in workbook order under their names. The metadata dictionary maps
  the cells of the \<^verbatim>\<open>name\<close> column to the cells of the \<^verbatim>\<open>value\<close> column.
\<close>

type_synonym workbook = "(string \<times> dataframe) list"

type_synonym props = "cell \<rightharpoonup> cell"

text \<open>The loop of lines 62-68: a "trade list" sheet ends the search, a "trade" sheet is
  remembered and the search goes on.\<close>

fun select_trades_sheet :: "string option \<Rightarrow> string list \<Rightarrow> string option" where
  "select_trades_sheet trades_sheet [] = trades_sheet"
| "select_trades_sheet trades_sheet (name # names) =
     (if contains ''trade'' (lower name) \<and> contains ''list'' (lower name) then Some name
      else if contains ''trade'' (lower name) then select_trades_sheet (Some name) names
      else select_trades_sheet trades_sheet names)"

text \<open>\<^verbatim>\<open>max(all_sheets.values(), key=lambda x: len(x.columns))\<close>: the first sheet of
  maximal width.\<close>

fun max_by_columns :: "dataframe \<Rightarrow> dataframe list \<Rightarrow> dataframe" where
  "max_by_columns best [] = best"
| "max_by_columns best (d # ds) =
     (if length (columns best) < length (columns d) then max_by_columns d ds
      else max_by_columns best ds)"

text \<open>\<^verbatim>\<open>dict(zip(props_df['name'], props_df['value']))\<close>: a later row overrides an
  earlier one with the same key.\<close>

definition dict_zip :: "row list \<Rightarrow> props" where
  "dict_zip rs = map_of (rev (map (\<lambda>r. (r ''name'', r ''value'')) rs))"

text \<open>Lines 75-81: only the first sheet whose name contains "propert" is looked at
  (\<^verbatim>\<open>break\<close>), and its columns are tested against the literal names.\<close>

definition load_props :: "workbook \<Rightarrow> props" where
  "load_props all_sheets =
     (case find (\<lambda>(name, props_df). contains ''propert'' (lower name)) all_sheets of
        None \<Rightarrow> Map.empty
      | Some (name, props_df) \<Rightarrow>
          (if ''name'' \<in> set (columns props_df) \<and> ''value'' \<in> set (columns props_df)
           then dict_zip (rows props_df)
           else Map.empty))"

text \<open>
  \<open>load_data ext all_sheets csv\<close>: \<open>ext\<close> is \<^verbatim>\<open>os.path.splitext(filepath)[1]\<close>,
  \<open>all_sheets\<close> what \<^verbatim>\<open>read_excel\<close> gives for the file and \<open>csv\<close> what
  \<^verbatim>\<open>read_csv\<close> gives for it.
\<close>

definition load_data :: "string \<Rightarrow> workbook \<Rightarrow> dataframe \<Rightarrow> error + (dataframe \<times> props)" where
  "load_data ext all_sheets csv =
     (if lower ext = ''.xlsx'' \<or> lower ext = ''.xls'' then
        (case select_trades_sheet None (map fst all_sheets) of
           Some trades_sheet \<Rightarrow>
             (case map_of all_sheets trades_sheet of
                Some df \<Rightarrow> Inr (df, load_props all_sheets)
              | None \<Rightarrow> Inl (KeyError trades_sheet))
         | None \<Rightarrow>
             (case map snd all_sheets of
                [] \<Rightarrow> Inl (ValueError ''max() arg is an empty sequence'')
              | d # ds \<Rightarrow> Inr (max_by_columns d ds, load_props all_sheets)))
      else if lower ext = ''.csv'' then Inr (csv, Map.empty)
      else Inl (ValueError (''Unsupported file format: '' @ lower ext)))"

text \<open>
  The metadata rule in the words of the specification, for comparison: the sheet's columns
  are matched against "name" and "value" after lowercasing, and the mapping is built from
  the two columns so found.
\<close>

definition spec_load_props :: "workbook \<Rightarrow> props" where
  "spec_load_props all_sheets =
     (case find (\<lambda>(name, props_df). contains ''propert'' (lower name)) all_sheets of
        None \<Rightarrow> Map.empty
      | Some (name, props_df) \<Rightarrow>
          (case (find (\<lambda>c. lower c = ''name'') (columns props_df),
                 find (\<lambda>c. lower c = ''value'') (columns props_df)) of
             (Some n, Some v) \<Rightarrow> map_of (rev (map (\<lambda>r. (r n, r v)) (rows props_df)))
           | _ \<Rightarrow> Map.empty))"

section \<open>Normalising trades (\<^verbatim>\<open>process_trades\<close>)\<close>

definition SESSION_START_HOUR :: int where
  "SESSION_START_HOUR = 7"

definition CYCLE_DURATION :: int where
  "CYCLE_DURATION = 80"

text \<open>
  The \<^verbatim>\<open>entries\<close> frame: every row keeps its original cells (\<open>source\<close>) and gains the
  derived columns. A P&L that is NaN is \<open>None\<close>.
\<close>

record entry =
  source :: row
  hour :: int
  minute :: int
  date :: "int \<times> int \<times> int"
  total_mins :: int
  cycle_num :: int
  is_win :: bool
  pnl :: "rat option"
  trade_type :: string

text \<open>
  Line 124, \<^verbatim>\<open>df[datetime_col] = pd.to_datetime(df[datetime_col])\<close>. A timestamp cell is
  kept, a missing cell becomes NaT, and pandas' parser of strings and numbers is the
  parameter \<open>parse\<close>: \<open>None\<close> when it raises, \<open>Some None\<close> when it yields NaT.
\<close>

definition to_datetime :: "(cell \<Rightarrow> stamp option option) \<Rightarrow> cell \<Rightarrow> error + cell" where
  "to_datetime parse c =
     (case c of
        Stamp t \<Rightarrow> Inr (Stamp t)
      | Null \<Rightarrow> Inr Null
      | _ \<Rightarrow>
          (case parse c of
             None \<Rightarrow> Inl DateParseError
           | Some None \<Rightarrow> Inr Null
           | Some (Some t) \<Rightarrow> Inr (Stamp t)))"

fun to_datetime_rows :: "(cell \<Rightarrow> stamp option option) \<Rightarrow> string \<Rightarrow> row list \<Rightarrow> error + row list" where
  "to_datetime_rows parse datetime_col [] = Inr []"
| "to_datetime_rows parse datetime_col (r # rs) =
     (case to_datetime parse (r datetime_col) of
        Inl e \<Rightarrow> Inl e
      | Inr c \<Rightarrow>
          (case to_datetime_rows parse datetime_col rs of
             Inl e \<Rightarrow> Inl e
           | Inr rs' \<Rightarrow> Inr (r(datetime_col := c) # rs')))"

text \<open>
  The dtype pandas gives a column: a column of numbers and missing values is numeric, one
  of timestamps is \<^verbatim>\<open>datetime64\<close>, anything else (and the column of an empty table) is
  \<^verbatim>\<open>object\<close>.
\<close>

datatype dtype = Float64 | Datetime64 | Object

definition is_Num_or_Null :: "cell \<Rightarrow> bool" where
  "is_Num_or_Null c = (case c of Num v \<Rightarrow> True | Null \<Rightarrow> True | _ \<Rightarrow> False)"

definition is_Stamp_or_Null :: "cell \<Rightarrow> bool" where
  "is_Stamp_or_Null c = (case c of Stamp t \<Rightarrow> True | Null \<Rightarrow> True | _ \<Rightarrow> False)"

definition col_dtype :: "cell list \<Rightarrow> dtype" where
  "col_dtype cells =
     (if cells = [] then Object
      else if list_all is_Num_or_Null cells then Float64
      else if list_all is_Stamp_or_Null cells then Datetime64
      else Object)"

text \<open>
  Lines 126-129. \<^verbatim>\<open>.str\<close> raises on a column that is not of object dtype;
  \<^verbatim>\<open>contains('Entry', case=False, na=False)\<close> is false on every cell that is not a
  string.
\<close>

definition is_entry :: "cell \<Rightarrow> bool" where
  "is_entry c = (case c of Str s \<Rightarrow> contains ''entry'' (lower s) | _ \<Rightarrow> False)"

definition entry_filter :: "string option \<Rightarrow> row list \<Rightarrow> error + row list" where
  "entry_filter type_col rs =
     (case type_col of
        Some tc \<Rightarrow>
          (if col_dtype (map (\<lambda>r. r tc) rs) = Object
           then Inr (filter (\<lambda>r. is_entry (r tc)) rs)
           else Inl AttributeError)
      | None \<Rightarrow> Inr rs)"

text \<open>
  Lines 94-129: the resolved columns and the rows that pass the entry filter, before the
  emptiness check of line 131.
\<close>

definition entry_rows ::
  "(cell \<Rightarrow> stamp option option) \<Rightarrow> dataframe
     \<Rightarrow> error + (string \<times> string option \<times> string \<times> dtype \<times> row list)" where
  "entry_rows parse df =
     (case find_datetime_col (columns df) of
        Inl e \<Rightarrow> Inl e
      | Inr datetime_col \<Rightarrow>
          (case find_pnl_col (columns df) of
             Inl e \<Rightarrow> Inl e
           | Inr pnl_col \<Rightarrow>
               (case to_datetime_rows parse datetime_col (rows df) of
                  Inl e \<Rightarrow> Inl e
                | Inr rs \<Rightarrow>
                    (case entry_filter (find_type_col (columns df)) rs of
                       Inl e \<Rightarrow> Inl e
                     | Inr entries \<Rightarrow>
                         Inr (datetime_col, find_type_col (columns df), pnl_col,
                              (if pnl_col = datetime_col then Datetime64
                               else col_dtype (map (\<lambda>r. r pnl_col) rs)),
                              entries)))))"

text \<open>Lines 134-141: the cycle index and the session filter. A NaT row has no hour; every
  comparison with its NaN index is false and the row is dropped.\<close>

definition cycle_index :: "int \<Rightarrow> int \<Rightarrow> int" where
  "cycle_index h m = ((h - SESSION_START_HOUR) * 60 + m) div CYCLE_DURATION"

definition in_session :: "string \<Rightarrow> row \<Rightarrow> bool" where
  "in_session datetime_col r =
     (case r datetime_col of
        Stamp t \<Rightarrow> 0 \<le> cycle_index (dt_hour t) (dt_minute t) \<and> cycle_index (dt_hour t) (dt_minute t) \<le> 6
      | _ \<Rightarrow> False)"

definition session_rows :: "string \<Rightarrow> row list \<Rightarrow> (row \<times> stamp) list" where
  "session_rows datetime_col rs =
     concat (map (\<lambda>r. case r datetime_col of
                         Stamp t \<Rightarrow> (if in_session datetime_col r then [(r, t)] else [])
                       | _ \<Rightarrow> []) rs)"

text \<open>Lines 134-151 on one surviving row. Comparing a string or a timestamp with \<open>0\<close>
  raises \<^verbatim>\<open>TypeError\<close>; a missing P&L compares false. Every cell that is not a string
  prints without the letters "long".\<close>

definition side_of :: "string option \<Rightarrow> row \<Rightarrow> string" where
  "side_of type_col r =
     (case type_col of
        None \<Rightarrow> ''Unknown''
      | Some tc \<Rightarrow>
          (case r tc of
             Str s \<Rightarrow> (if contains ''long'' (lower s) then ''Long'' else ''Short'')
           | _ \<Rightarrow> ''Short''))"

definition make_entry :: "string option \<Rightarrow> string \<Rightarrow> row \<times> stamp \<Rightarrow> error + entry" where
  "make_entry type_col pnl_col rt =
     (let r = fst rt; t = snd rt;
          h = dt_hour t; m = dt_minute t;
          tm = (h - SESSION_START_HOUR) * 60 + m;
          e = \<lparr>source = r, hour = h, minute = m,
               date = (dt_year t, dt_month t, dt_day t),
               total_mins = tm, cycle_num = tm div CYCLE_DURATION,
               is_win = False, pnl = None, trade_type = side_of type_col r\<rparr>
      in (case r pnl_col of
            Num v \<Rightarrow> Inr (e\<lparr>is_win := 0 < v, pnl := Some v\<rparr>)
          | Null \<Rightarrow> Inr e
          | _ \<Rightarrow> Inl TypeError))"

fun make_entries :: "string option \<Rightarrow> string \<Rightarrow> (row \<times> stamp) list \<Rightarrow> error + entry list" where
  "make_entries type_col pnl_col [] = Inr []"
| "make_entries type_col pnl_col (rt # rts) =
     (case make_entry type_col pnl_col rt of
        Inl e \<Rightarrow> Inl e
      | Inr x \<Rightarrow>
          (case make_entries type_col pnl_col rts of
             Inl e \<Rightarrow> Inl e
           | Inr xs \<Rightarrow> Inr (x # xs)))"

text \<open>
  The whole of \<^verbatim>\<open>process_trades\<close>. The emptiness check of line 131 comes before the
  session filter of line 141. Line 143 compares the P&L column with \<open>0\<close>: on a column of
  \<^verbatim>\<open>datetime64\<close> dtype that raises \<^verbatim>\<open>TypeError\<close> whatever rows are left, on any
  other column the rows left are compared one by one.
\<close>

definition process_trades :: "(cell \<Rightarrow> stamp option option) \<Rightarrow> dataframe \<Rightarrow> error + entry list" where
  "process_trades parse df =
     (case entry_rows parse df of
        Inl e \<Rightarrow> Inl e
      | Inr (datetime_col, type_col, pnl_col, pnl_dtype, entries) \<Rightarrow>
          (if length entries = 0 then Inl (ValueError ''No trade entries found in data'')
           else if pnl_dtype = Datetime64 then Inl TypeError
           else make_entries type_col pnl_col (session_rows datetime_col entries)))"

section \<open>Aggregation (\<^verbatim>\<open>calculate_cycle_stats\<close>, \<^verbatim>\<open>calculate_overall_stats\<close>)\<close>

text \<open>
  A float is the exact rational value of an IEEE 754 double. \<open>rint\<close> rounds to the nearest
  integer, a tie to the even one. \<open>fl x\<close> is the double nearest to \<open>x\<close>, a tie going to
  the even significand of 53 bits. For \<open>x = a / b\<close> in lowest terms, \<open>flog2 \<bar>a\<bar> b\<close> is the
  exponent of the leading bit of \<open>\<bar>x\<bar>\<close>, and the significand is \<open>\<bar>x\<bar>\<close> scaled into
  \<open>[2^52, 2^53)\<close> and rounded to the nearest integer by \<open>round_div\<close>. Overflow and
  subnormal numbers are out of range of the percentages computed here and are not
  modelled.
\<close>

definition rint :: "rat \<Rightarrow> int" where
  "rint x =
     (let f = \<lfloor>x\<rfloor>; d = x - of_int f
      in if d < 1 / 2 then f else if 1 / 2 < d then f + 1 else if even f then f else f + 1)"

function bit_length :: "int \<Rightarrow> int" where
  "bit_length n = (if n \<le> 0 then 0 else 1 + bit_length (n div 2))"
  by auto
termination
  by (relation "measure nat") auto

declare bit_length.simps [simp del]

definition flog2 :: "int \<Rightarrow> int \<Rightarrow> int" where
  "flog2 a b =
     (if b \<le> a then bit_length (a div b) - 1
      else - bit_length ((b - 1) div a))"

definition round_div :: "int \<Rightarrow> int \<Rightarrow> int" where
  "round_div n d =
     (let q = n div d; r = n mod d
      in if 2 * r < d then q else if d < 2 * r then q + 1 else if even q then q else q + 1)"

definition fl :: "rat \<Rightarrow> rat" where
  "fl x =
     (case quotient_of x of (a, b) \<Rightarrow>
        if a = 0 then 0
        else (let e = flog2 \<bar>a\<bar> b - 52;
                  m = round_div (\<bar>a\<bar> * 2 ^ nat (- e)) (b * 2 ^ nat e)
              in Fract (sgn a * m * 2 ^ nat e) (2 ^ nat (- e))))"

text \<open>
  \<^verbatim>\<open>round(x, n)\<close> of a numpy float, for \<open>n \<ge> 0\<close>: numpy rounds to the nearest integer
  when \<open>n = 0\<close>, and otherwise multiplies by \<open>10^n\<close>, rounds to the nearest integer and
  divides by \<open>10^n\<close>, each operation in double precision.
\<close>

definition np_round :: "rat \<Rightarrow> nat \<Rightarrow> rat" where
  "np_round x n =
     (if n = 0 then of_int (rint x)
      else fl (of_int (rint (fl (x * 10 ^ n))) / 10 ^ n))"

text \<open>The rounding of the specification's formulas: the decimal of \<open>n\<close> places nearest
  to the exact value, a tie to the even one.\<close>

definition spec_round :: "rat \<Rightarrow> nat \<Rightarrow> rat" where
  "spec_round x n = of_int (rint (x * 10 ^ n)) / 10 ^ n"

text \<open>\<^verbatim>\<open>int(x['is_win'].sum())\<close>, and \<^verbatim>\<open>sum()\<close> and \<^verbatim>\<open>mean()\<close> of the P&L column,
  which skip NaN; the mean of no value is NaN. The additions of the P&L values are
  kept exact.\<close>

definition count_wins :: "entry list \<Rightarrow> int" where
  "count_wins es = int (length (filter is_win es))"

definition pnl_values :: "entry list \<Rightarrow> rat list" where
  "pnl_values es = concat (map (\<lambda>e. case pnl e of Some v \<Rightarrow> [v] | None \<Rightarrow> []) es)"

definition pnl_sum :: "entry list \<Rightarrow> rat" where
  "pnl_sum es = sum_list (pnl_values es)"

definition pnl_mean :: "entry list \<Rightarrow> rat option" where
  "pnl_mean es =
     (if pnl_values es = [] then None
      else Some (sum_list (pnl_values es) / of_nat (length (pnl_values es))))"

text \<open>\<^verbatim>\<open>round((x['is_win'].sum() / len(x)) * 100, n)\<close>, for a frame that is not empty:
  the quotient of the two integers, its product with 100 and the rounding are three
  double-precision operations, in this order.\<close>

definition win_pct :: "nat \<Rightarrow> entry list \<Rightarrow> rat" where
  "win_pct n es =
     np_round (fl (fl (of_int (count_wins es) / of_int (int (length es))) * 100)) n"

definition CYCLE_TIMES :: "int \<Rightarrow> string" where
  "CYCLE_TIMES c =
     (if c = 0 then ''07:00 - 08:20''
      else if c = 1 then ''08:20 - 09:40''
      else if c = 2 then ''09:40 - 11:00''
      else if c = 3 then ''11:00 - 12:20''
      else if c = 4 then ''12:20 - 13:40''
      else if c = 5 then ''13:40 - 15:00''
      else ''15:00 - 16:20'')"

record cycle_stat =
  cycle :: int
  time_range :: string
  total_trades :: int
  wins :: int
  losses :: int
  win_rate :: rat
  total_pnl :: rat
  avg_pnl :: "rat option"
  long_trades :: int
  long_wr :: rat
  long_pnl :: rat
  short_trades :: int
  short_wr :: rat
  short_pnl :: rat

text \<open>The body of the loop of \<^verbatim>\<open>calculate_cycle_stats\<close> for one cycle: no row for a
  cycle without trades.\<close>

definition cycle_row :: "entry list \<Rightarrow> int \<Rightarrow> cycle_stat list" where
  "cycle_row entries c =
     (let cycle_data = filter (\<lambda>e. cycle_num e = c) entries
      in if length cycle_data = 0 then []
         else
           (let long_data = filter (\<lambda>e. trade_type e = ''Long'') cycle_data;
                short_data = filter (\<lambda>e. trade_type e = ''Short'') cycle_data
            in [\<lparr>cycle = c,
                 time_range = CYCLE_TIMES c,
                 total_trades = int (length cycle_data),
                 wins = count_wins cycle_data,
                 losses = int (length cycle_data) - count_wins cycle_data,
                 win_rate = win_pct 1 cycle_data,
                 total_pnl = pnl_sum cycle_data,
                 avg_pnl = map_option (\<lambda>v. np_round v 0) (pnl_mean cycle_data),
                 long_trades = int (length long_data),
                 long_wr = (if 0 < length long_data then win_pct 1 long_data else 0),
                 long_pnl = (if 0 < length long_data then pnl_sum long_data else 0),
                 short_trades = int (length short_data),
                 short_wr = (if 0 < length short_data then win_pct 1 short_data else 0),
                 short_pnl = (if 0 < length short_data then pnl_sum short_data else 0)\<rparr>]))"

definition calculate_cycle_stats :: "entry list \<Rightarrow> cycle_stat list" where
  "calculate_cycle_stats entries = concat (map (cycle_row entries) [0, 1, 2, 3, 4, 5, 6])"

text \<open>The earliest and the latest calendar date; NaN (\<open>None\<close>) for no row.\<close>

definition date_le :: "int \<times> int \<times> int \<Rightarrow> int \<times> int \<times> int \<Rightarrow> bool" where
  "date_le a b =
     (case a of (y1, m1, d1) \<Rightarrow> case b of (y2, m2, d2) \<Rightarrow>
        y1 < y2 \<or> (y1 = y2 \<and> (m1 < m2 \<or> (m1 = m2 \<and> d1 \<le> d2))))"

fun date_min :: "(int \<times> int \<times> int) list \<Rightarrow> (int \<times> int \<times> int) option" where
  "date_min [] = None"
| "date_min (d # ds) =
     (case date_min ds of None \<Rightarrow> Some d | Some x \<Rightarrow> Some (if date_le d x then d else x))"

fun date_max :: "(int \<times> int \<times> int) list \<Rightarrow> (int \<times> int \<times> int) option" where
  "date_max [] = None"
| "date_max (d # ds) =
     (case date_max ds of None \<Rightarrow> Some d | Some x \<Rightarrow> Some (if date_le x d then d else x))"

text \<open>The overall win rate divides by \<^verbatim>\<open>len(entries)\<close> unguarded: numpy gives NaN
  (\<open>None\<close>) for \<open>0 / 0\<close>.\<close>

record overall_stat =
  o_total_trades :: int
  o_total_wins :: int
  o_total_losses :: int
  o_overall_wr :: "rat option"
  o_total_pnl :: rat
  o_long_trades :: int
  o_long_wins :: int
  o_long_losses :: int
  o_long_wr :: rat
  o_long_pnl :: rat
  o_short_trades :: int
  o_short_wins :: int
  o_short_losses :: int
  o_short_wr :: rat
  o_short_pnl :: rat
  o_start_date :: "(int \<times> int \<times> int) option"
  o_end_date :: "(int \<times> int \<times> int) option"

definition calculate_overall_stats :: "entry list \<Rightarrow> overall_stat" where
  "calculate_overall_stats entries =
     (let long_trades = filter (\<lambda>e. trade_type e = ''Long'') entries;
          short_trades = filter (\<lambda>e. trade_type e = ''Short'') entries
      in \<lparr>o_total_trades = int (length entries),
          o_total_wins = count_wins entries,
          o_total_losses = int (length entries) - count_wins entries,
          o_overall_wr = (if length entries = 0 then None else Some (win_pct 2 entries)),
          o_total_pnl = pnl_sum entries,
          o_long_trades = int (length long_trades),
          o_long_wins = count_wins long_trades,
          o_long_losses = int (length long_trades) - count_wins long_trades,
          o_long_wr = (if 0 < length long_trades then win_pct 2 long_trades else 0),
          o_long_pnl = (if 0 < length long_trades then pnl_sum long_trades else 0),
          o_short_trades = int (length short_trades),
          o_short_wins = count_wins short_trades,
          o_short_losses = int (length short_trades) - count_wins short_trades,
          o_short_wr = (if 0 < length short_trades then win_pct 2 short_trades else 0),
          o_short_pnl = (if 0 < length short_trades then pnl_sum short_trades else 0),
          o_start_date = date_min (map date entries),
          o_end_date = date_max (map date entries)\<rparr>)"

section \<open>Rendering (\<^verbatim>\<open>generate_report\<close>)\<close>

subsection \<open>Formatting\<close>

definition nl :: char where
  "nl = CHR 0x0A"

definition unlines :: "string list \<Rightarrow> string" where
  "unlines ls = concat (map (\<lambda>l. l @ [nl]) ls)"

definition digit :: "nat \<Rightarrow> char" where
  "digit n = ''0123456789'' ! n"

fun str_nat :: "nat \<Rightarrow> string" where
  "str_nat n = (if n < 10 then [digit n] else str_nat (n div 10) @ [digit (n mod 10)])"

declare str_nat.simps [simp del]

definition str_int :: "int \<Rightarrow> string" where
  "str_int i = (if i < 0 then ''-'' @ str_nat (nat (- i)) else str_nat (nat i))"

definition zfill :: "nat \<Rightarrow> string \<Rightarrow> string" where
  "zfill w s = replicate (w - length s) (CHR ''0'') @ s"

fun group3 :: "string \<Rightarrow> string" where
  "group3 (a # b # c # d # ds) = a # b # c # CHR '','' # group3 (d # ds)"
| "group3 ds = ds"

definition commas :: "string \<Rightarrow> string" where
  "commas s = rev (group3 (rev s))"

text \<open>\<^verbatim>\<open>f"{x:.<nd>f}"\<close>, and \<^verbatim>\<open>f"{x:,.<nd>f}"\<close> when \<open>grouping\<close> is set: the value
  rounded to \<open>nd\<close> decimals, a tie to the even digit.\<close>

definition format_f :: "bool \<Rightarrow> nat \<Rightarrow> rat \<Rightarrow> string" where
  "format_f grouping nd x =
     (let scaled = nat (rint (\<bar>x\<bar> * 10 ^ nd));
          whole = str_nat (scaled div 10 ^ nd);
          frac = zfill nd (str_nat (scaled mod 10 ^ nd))
      in (if x < 0 then ''-'' else []) @ (if grouping then commas whole else whole)
         @ (if nd = 0 then [] else ''.'' @ frac))"

definition format_nan :: "nat \<Rightarrow> rat option \<Rightarrow> string" where
  "format_nan nd x = (case x of None \<Rightarrow> ''nan'' | Some v \<Rightarrow> format_f False nd v)"

definition format_pnl :: "rat \<Rightarrow> string" where
  "format_pnl v = (if 0 \<le> v then ''$'' @ format_f True 0 v else ''-$'' @ format_f True 0 \<bar>v\<bar>)"

text \<open>NaN is not \<open>\<ge> 0\<close>, so it takes the second branch of \<^verbatim>\<open>format_pnl\<close>.\<close>

definition format_pnl_nan :: "rat option \<Rightarrow> string" where
  "format_pnl_nan x = (case x of None \<Rightarrow> ''-$nan'' | Some v \<Rightarrow> format_pnl v)"

definition format_pnl_signed :: "rat \<Rightarrow> string" where
  "format_pnl_signed v =
     (if 0 \<le> v then ''+$'' @ format_f True 0 v else ''-$'' @ format_f True 0 \<bar>v\<bar>)"

definition date_str :: "(int \<times> int \<times> int) option \<Rightarrow> string" where
  "date_str d =
     (case d of
        None \<Rightarrow> ''nan''
      | Some (y, m, dd) \<Rightarrow>
          zfill 4 (str_int y) @ ''-'' @ zfill 2 (str_int m) @ ''-'' @ zfill 2 (str_int dd))"

definition month_name :: "int \<Rightarrow> string" where
  "month_name m =
     (if 1 \<le> m \<and> m \<le> 12
      then [''January'', ''February'', ''March'', ''April'', ''May'', ''June'', ''July'',
            ''August'', ''September'', ''October'', ''November'', ''December''] ! nat (m - 1)
      else [])"

text \<open>\<^verbatim>\<open>strftime('%B %d, %Y at %H:%M')\<close>.\<close>

definition strftime_report :: "stamp \<Rightarrow> string" where
  "strftime_report t =
     month_name (dt_month t) @ '' '' @ zfill 2 (str_int (dt_day t)) @ '', ''
       @ str_int (dt_year t) @ '' at '' @ zfill 2 (str_int (dt_hour t)) @ '':''
       @ zfill 2 (str_int (dt_minute t))"

subsection \<open>Metadata\<close>

text \<open>
  \<^verbatim>\<open>props.get(key, dflt) if props else dflt\<close>, printed in an f-string. A string prints
  as it is and NaN as \<^verbatim>\<open>nan\<close>; how Python prints a number or a timestamp is the
  parameter \<open>py_str\<close>.
\<close>

definition cell_text :: "(cell \<Rightarrow> string) \<Rightarrow> cell \<Rightarrow> string" where
  "cell_text py_str c = (case c of Str s \<Rightarrow> s | Null \<Rightarrow> ''nan'' | _ \<Rightarrow> py_str c)"

definition props_get :: "(cell \<Rightarrow> string) \<Rightarrow> props \<Rightarrow> string \<Rightarrow> string \<Rightarrow> string" where
  "props_get py_str props key dflt =
     (case props (Str key) of None \<Rightarrow> dflt | Some c \<Rightarrow> cell_text py_str c)"

text \<open>Line 252. A timestamp formats itself with \<^verbatim>\<open>strftime\<close>, which leaves the format
  text as it is.\<close>

definition initial_capital_text :: "props \<Rightarrow> string" where
  "initial_capital_text props =
     (case props (Str ''Initial capital'') of
        None \<Rightarrow> ''N/A''
      | Some (Str s) \<Rightarrow> s
      | Some (Num v) \<Rightarrow> ''$'' @ format_f True 0 v
      | Some Null \<Rightarrow> ''$nan''
      | Some (Stamp t) \<Rightarrow> ''$,.0f'')"

subsection \<open>Sorting\<close>

text \<open>
  \<^verbatim>\<open>sort_values(key, ascending=...)\<close> with the default sort kind. pandas sorts the key
  column with numpy's \<^verbatim>\<open>argsort\<close> and takes the rows in that order; for a descending
  sort it reverses the column first and the result afterwards. numpy's \<^verbatim>\<open>argsort\<close>
  of the default kind is the parameter \<open>argsort\<close>: it returns the positions of the keys
  in ascending key order, and its documentation promises no order among equal keys.
\<close>

definition take_rows :: "'a list \<Rightarrow> nat list \<Rightarrow> 'a list" where
  "take_rows df indexer = map (\<lambda>i. df ! i) indexer"

definition sort_values :: "(rat list \<Rightarrow> nat list) \<Rightarrow> ('a \<Rightarrow> rat) \<Rightarrow> bool \<Rightarrow> 'a list \<Rightarrow> 'a list" where
  "sort_values argsort key ascending df =
     (if ascending then take_rows df (argsort (map key df))
      else rev (take_rows (rev df) (argsort (map key (rev df)))))"

text \<open>What numpy documents of \<^verbatim>\<open>argsort\<close>: a permutation of the positions that puts the
  keys in ascending order.\<close>

definition argsort_contract :: "(rat list \<Rightarrow> nat list) \<Rightarrow> bool" where
  "argsort_contract argsort \<longleftrightarrow>
     (\<forall>ks. mset (argsort ks) = mset [0 ..< length ks] \<and> sorted (map (\<lambda>i. ks ! i) (argsort ks)))"

text \<open>A sort kind is stable when equal keys keep their positions' order.\<close>

definition argsort_stable :: "(rat list \<Rightarrow> nat list) \<Rightarrow> bool" where
  "argsort_stable argsort \<longleftrightarrow>
     (\<forall>ks k. filter (\<lambda>i. ks ! i = k) (argsort ks) = filter (\<lambda>i. ks ! i = k) [0 ..< length ks])"

text \<open>Insertion sort on the positions meets the contract and is stable.\<close>

definition stable_argsort :: "rat list \<Rightarrow> nat list" where
  "stable_argsort ks = sort_key (\<lambda>i. ks ! i) [0 ..< length ks]"

text \<open>
  The sort numpy runs for \<^verbatim>\<open>argsort\<close> of the default kind on at most eight float64 keys
  where the processor has AVX-512 (\<^verbatim>\<open>argsort_8_64bit\<close> of x86-simd-sort, numpy 1.25 and
  later); the report sorts at most seven rows. The keys are loaded in one register of
  eight lanes, the unused lanes holding \<open>+inf\<close> (\<open>None\<close>), beside a register of their
  positions. \<^verbatim>\<open>sort_zmm_64bit\<close> is a bitonic network of six steps. In a step
  (\<^verbatim>\<open>cmp_merge\<close>) every lane is compared with the lane \<open>perm\<close> pairs it with and takes the
  larger key where its bit of the mask \<open>msk\<close> is set, the smaller one elsewhere; it keeps its position
  when the key it takes equals its own, and takes the other lane's position otherwise.
\<close>

type_synonym lane = "rat option \<times> nat"

definition key_le :: "rat option \<Rightarrow> rat option \<Rightarrow> bool" where
  "key_le a b =
     (case b of None \<Rightarrow> True | Some y \<Rightarrow> (case a of None \<Rightarrow> False | Some x \<Rightarrow> x \<le> y))"

definition key_min :: "rat option \<Rightarrow> rat option \<Rightarrow> rat option" where
  "key_min a b = (if key_le a b then a else b)"

definition key_max :: "rat option \<Rightarrow> rat option \<Rightarrow> rat option" where
  "key_max a b = (if key_le a b then b else a)"

definition cmp_merge :: "nat list \<Rightarrow> nat list \<Rightarrow> lane list \<Rightarrow> lane list" where
  "cmp_merge perm msk reg =
     map (\<lambda>i. (let own = reg ! i; other = reg ! (perm ! i);
                   k = (if i \<in> set msk then key_max (fst own) (fst other)
                        else key_min (fst own) (fst other))
               in (k, if k = fst own then snd own else snd other)))
       [0, 1, 2, 3, 4, 5, 6, 7]"

text \<open>The lane pairings (\<^verbatim>\<open>SHUFFLE_MASK(1, 1, 1, 1)\<close>, \<^verbatim>\<open>NETWORK_64BIT_1\<close>,
  \<^verbatim>\<open>NETWORK_64BIT_2\<close>, \<^verbatim>\<open>NETWORK_64BIT_3\<close>) and the lanes of the masks
  \<^verbatim>\<open>0xAA\<close>, \<^verbatim>\<open>0xCC\<close>, \<^verbatim>\<open>0xF0\<close>.\<close>

definition sort_zmm_64bit :: "lane list \<Rightarrow> lane list" where
  "sort_zmm_64bit reg =
     cmp_merge [1, 0, 3, 2, 5, 4, 7, 6] [1, 3, 5, 7]
       (cmp_merge [2, 3, 0, 1, 6, 7, 4, 5] [2, 3, 6, 7]
         (cmp_merge [7, 6, 5, 4, 3, 2, 1, 0] [4, 5, 6, 7]
           (cmp_merge [1, 0, 3, 2, 5, 4, 7, 6] [1, 3, 5, 7]
             (cmp_merge [3, 2, 1, 0, 7, 6, 5, 4] [2, 3, 6, 7]
               (cmp_merge [1, 0, 3, 2, 5, 4, 7, 6] [1, 3, 5, 7] reg)))))"

definition argsort_8_64bit :: "rat list \<Rightarrow> nat list" where
  "argsort_8_64bit ks =
     (let n = length ks
      in if n \<le> 1 then [0 ..< n]
         else map snd (take n (sort_zmm_64bit
                (zip (map Some ks @ replicate (8 - n) None)
                     ([0 ..< n] @ replicate (8 - n) 0)))))"

subsection \<open>The report\<close>

definition summary_row :: "cycle_stat \<Rightarrow> string" where
  "summary_row row =
     ''| '' @ str_int (cycle row) @ '' | '' @ time_range row @ '' | '' @ str_int (total_trades row) @ '' | '' @ str_int (wins row) @ '' | '' @ str_int (losses row) @ '' | **'' @ format_f False 1 (win_rate row) @ ''%** | '' @ format_pnl (total_pnl row) @ '' | '' @ format_pnl_nan (avg_pnl row) @ '' |'' @ [nl]"

definition icon :: "int \<Rightarrow> string" where
  "icon rank =
     (if rank = 1 then ''[1st]'' else if rank = 2 then ''[2nd]'' else if rank = 3 then ''[3rd]''
      else ''['' @ str_int rank @ '']'')"

definition win_rate_line :: "int \<Rightarrow> cycle_stat \<Rightarrow> string" where
  "win_rate_line rank row =
     ''**'' @ icon rank @ '' Cycle '' @ str_int (cycle row) @ ''** ('' @ time_range row @ '') - **'' @ format_f False 1 (win_rate row) @ ''%** win rate | '' @ str_int (total_trades row) @ '' trades | '' @ format_pnl_signed (total_pnl row) @ [nl] @ [nl]"

definition pnl_line :: "int \<Rightarrow> cycle_stat \<Rightarrow> string" where
  "pnl_line rank row =
     ''**'' @ icon rank @ '' Cycle '' @ str_int (cycle row) @ ''** ('' @ time_range row @ '') - **'' @ format_pnl_signed (total_pnl row) @ ''** | '' @ format_f False 1 (win_rate row) @ ''% WR'' @ [nl] @ [nl]"

text \<open>The loops over \<^verbatim>\<open>enumerate(ranked.iterrows(), 1)\<close>, with the running rank.\<close>

fun enumerate_lines :: "(int \<Rightarrow> cycle_stat \<Rightarrow> string) \<Rightarrow> int \<Rightarrow> cycle_stat list \<Rightarrow> string" where
  "enumerate_lines line rank [] = []"
| "enumerate_lines line rank (r # rs) = line rank r @ enumerate_lines line (rank + 1) rs"

definition long_short_row :: "cycle_stat \<Rightarrow> string" where
  "long_short_row row =
     ''| '' @ str_int (cycle row) @ '' | '' @ time_range row @ '' | '' @ str_int (long_trades row) @ '' | '' @ format_f False 1 (long_wr row) @ ''% | '' @ format_pnl (long_pnl row) @ '' | '' @ str_int (short_trades row) @ '' | '' @ format_f False 1 (short_wr row) @ ''% | '' @ format_pnl (short_pnl row) @ '' |'' @ [nl]"

definition long_note :: "cycle_stat \<Rightarrow> string" where
  "long_note row =
     (if 0 < long_trades row then ''Longs: '' @ format_f False 0 (long_wr row) @ ''%'' else ''No longs'')"

definition short_note :: "cycle_stat \<Rightarrow> string" where
  "short_note row =
     (if 0 < short_trades row then ''Shorts: '' @ format_f False 0 (short_wr row) @ ''%''
      else ''No shorts'')"

definition high_wr_row :: "cycle_stat \<Rightarrow> string" where
  "high_wr_row row =
     ''| **'' @ str_int (cycle row) @ ''** | '' @ time_range row @ '' | **'' @ format_f False 1 (win_rate row) @ ''%** | '' @ long_note row @ '', '' @ short_note row @ ''. P&L: '' @ format_pnl_signed (total_pnl row) @ '' |'' @ [nl]"

definition low_wr_row :: "cycle_stat \<Rightarrow> string" where
  "low_wr_row row =
     ''| **'' @ str_int (cycle row) @ ''** | '' @ time_range row @ '' | **'' @ format_f False 1 (win_rate row) @ ''%** | P&L: '' @ format_pnl (total_pnl row) @ ''. Consider skipping this cycle. |'' @ [nl]"

text \<open>Lines 377-389: the status and the action of a schedule row.\<close>

definition schedule_status :: "cycle_stat \<Rightarrow> string" where
  "schedule_status row =
     (if 55 \<le> win_rate row then ''[GO]''
      else if 50 \<le> win_rate row then ''[CAUTION]''
      else ''[SKIP]'')"

definition schedule_action :: "cycle_stat \<Rightarrow> string" where
  "schedule_action row =
     (if 55 \<le> win_rate row then
        (if short_wr row + 10 < long_wr row then ''Favor longs''
         else if long_wr row + 10 < short_wr row then ''Favor shorts''
         else ''Trade both directions'')
      else if 50 \<le> win_rate row then ''Trade with caution''
      else ''Do not trade'')"

definition schedule_line :: "int \<Rightarrow> cycle_stat \<Rightarrow> string" where
  "schedule_line priority row =
     ''| '' @ schedule_status row @ '' '' @ str_int priority @ '' | '' @ str_int (cycle row) @ '' | '' @ time_range row @ '' | '' @ format_f False 1 (win_rate row) @ ''% | '' @ schedule_action row @ '' |'' @ [nl]"

definition report_header ::
  "string \<Rightarrow> string \<Rightarrow> string \<Rightarrow> string \<Rightarrow> string \<Rightarrow> overall_stat \<Rightarrow> string" where
  "report_header symbol timeframe stop_loss take_profit initial_capital overall_stats =
     unlines
       [''# 80-Minute Cycle Strategy - Win Rate Analysis Report'',
        [],
        ''## Strategy Overview'',
        [],
        ''| Parameter | Value |'',
        ''|-----------|-------|'',
        ''| **Symbol** | '' @ symbol @ '' |'',
        ''| **Timeframe** | '' @ timeframe @ '' |'',
        ''| **Trading Period** | '' @ date_str (o_start_date overall_stats) @ '' to '' @ date_str (o_end_date overall_stats) @ '' |'',
        ''| **Session Hours** | 7:00 AM - 4:00 PM EST |'',
        ''| **Stop Loss** | '' @ stop_loss @ '' points |'',
        ''| **Take Profit** | '' @ take_profit @ '' points |'',
        ''| **Initial Capital** | '' @ initial_capital @ '' |'',
        [],
        ''---'',
        [],
        ''## Overall Performance Summary'',
        [],
        ''| Metric | All Trades | Long | Short |'',
        ''|--------|------------|------|-------|'',
        ''| **Total Trades** | '' @ str_int (o_total_trades overall_stats) @ '' | '' @ str_int (o_long_trades overall_stats) @ '' | '' @ str_int (o_short_trades overall_stats) @ '' |'',
        ''| **Winning Trades** | '' @ str_int (o_total_wins overall_stats) @ '' | '' @ str_int (o_long_wins overall_stats) @ '' | '' @ str_int (o_short_wins overall_stats) @ '' |'',
        ''| **Losing Trades** | '' @ str_int (o_total_losses overall_stats) @ '' | '' @ str_int (o_long_losses overall_stats) @ '' | '' @ str_int (o_short_losses overall_stats) @ '' |'',
        ''| **Win Rate** | '' @ format_nan 2 (o_overall_wr overall_stats) @ ''% | '' @ format_f False 2 (o_long_wr overall_stats) @ ''% | '' @ format_f False 2 (o_short_wr overall_stats) @ ''% |'',
        ''| **Net P&L** | '' @ format_pnl (o_total_pnl overall_stats) @ '' | '' @ format_pnl (o_long_pnl overall_stats) @ '' | '' @ format_pnl (o_short_pnl overall_stats) @ '' |'',
        [],
        ''---'',
        [],
        ''## Cycle-by-Cycle Win Rate Analysis'',
        [],
        ''The trading session (7:00 AM - 4:00 PM EST) is divided into **seven 80-minute cycles**. Each cycle consists of:'',
        ''- **Phase A (Accumulation)**: First 40 minutes - Range established'',
        ''- **Phase B (Execution)**: Last 40 minutes - Trade signals generated'',
        [],
        ''### Summary Table'',
        [],
        ''| Cycle | Time (EST) | Trades | Wins | Losses | Win Rate | Total P&L | Avg P&L |'',
        ''|:-----:|:----------:|:------:|:----:|:------:|:--------:|----------:|--------:|'']"

definition rankings_heading :: string where
  "rankings_heading =
     unlines
       [[],
        ''---'',
        [],
        ''## Cycle Rankings'',
        [],
        ''### By Win Rate (Highest to Lowest)'',
        []]"

definition profitability_heading :: string where
  "profitability_heading =
     unlines
       [''### By Profitability (Best to Worst)'',
        []]"

definition long_short_heading :: string where
  "long_short_heading =
     unlines
       [''---'',
        [],
        ''## Long vs Short Performance by Cycle'',
        [],
        ''| Cycle | Time (EST) | Long Trades | Long WR | Long P&L | Short Trades | Short WR | Short P&L |'',
        ''|:-----:|:----------:|:-----------:|:-------:|---------:|:------------:|:--------:|---------:|'']"

definition insights_heading :: string where
  "insights_heading =
     unlines
       [[],
        ''---'',
        [],
        ''## Key Insights & Recommendations'',
        [],
        ''### HIGH-WIN-RATE CYCLES (Recommended)'',
        [],
        ''| Cycle | Time | Win Rate | Insight |'',
        ''|:-----:|:----:|:--------:|---------|'']"

definition low_wr_heading :: string where
  "low_wr_heading =
     unlines
       [[],
        ''### LOW-WIN-RATE CYCLES (Avoid or Modify)'',
        [],
        ''| Cycle | Time | Win Rate | Issue |'',
        ''|:-----:|:----:|:--------:|-------|'']"

definition recommendations ::
  "cycle_stat \<Rightarrow> cycle_stat \<Rightarrow> cycle_stat \<Rightarrow> cycle_stat \<Rightarrow> overall_stat \<Rightarrow> string" where
  "recommendations best_wr worst_wr best_pnl worst_pnl overall_stats =
     unlines
       [[],
        ''### Strategic Recommendations'',
        [],
        ''1. **Best Cycle**: Cycle '' @ str_int (cycle best_wr) @ '' ('' @ time_range best_wr @ '') has the highest win rate at '' @ format_f False 1 (win_rate best_wr) @ ''%.'',
        [],
        ''2. **Worst Cycle**: Cycle '' @ str_int (cycle worst_wr) @ '' ('' @ time_range worst_wr @ '') has the lowest win rate at '' @ format_f False 1 (win_rate worst_wr) @ ''%. Consider avoiding.'',
        [],
        ''3. **Most Profitable**: Cycle '' @ str_int (cycle best_pnl) @ '' ('' @ time_range best_pnl @ '') generated '' @ format_pnl_signed (total_pnl best_pnl) @ ''.'',
        [],
        ''4. **Biggest Loser**: Cycle '' @ str_int (cycle worst_pnl) @ '' ('' @ time_range worst_pnl @ '') lost '' @ format_pnl (total_pnl worst_pnl) @ ''.'',
        [],
        ''5. **Direction Bias**: '' @ (if o_short_wr overall_stats < o_long_wr overall_stats then ''Longs outperform shorts'' else ''Shorts outperform longs'') @ '' ('' @ format_f False 1 (o_long_wr overall_stats) @ ''% vs '' @ format_f False 1 (o_short_wr overall_stats) @ ''%).'',
        [],
        ''---'',
        [],
        ''## Recommended Trading Schedule'',
        [],
        ''| Priority | Cycle | Time (EST) | Win Rate | Action |'',
        ''|:--------:|:-----:|:----------:|:--------:|--------|'']"

definition footer :: "stamp \<Rightarrow> string" where
  "footer now =
     unlines
       [[],
        ''---'',
        [],
        ''*Report generated: '' @ strftime_report now @ ''*  '',
        ''*Data source: TradingView Backtest Export*'']"

text \<open>The rankings the report lists (lines 292, 302, 324, 325 and 374).\<close>

definition ranked_by_win_rate :: "(rat list \<Rightarrow> nat list) \<Rightarrow> cycle_stat list \<Rightarrow> cycle_stat list" where
  "ranked_by_win_rate argsort cycle_stats = sort_values argsort win_rate False cycle_stats"

definition ranked_by_pnl :: "(rat list \<Rightarrow> nat list) \<Rightarrow> cycle_stat list \<Rightarrow> cycle_stat list" where
  "ranked_by_pnl argsort cycle_stats = sort_values argsort total_pnl False cycle_stats"

definition high_wr_cycles :: "(rat list \<Rightarrow> nat list) \<Rightarrow> cycle_stat list \<Rightarrow> cycle_stat list" where
  "high_wr_cycles argsort cycle_stats =
     sort_values argsort win_rate False (filter (\<lambda>row. 55 \<le> win_rate row) cycle_stats)"

definition low_wr_cycles :: "(rat list \<Rightarrow> nat list) \<Rightarrow> cycle_stat list \<Rightarrow> cycle_stat list" where
  "low_wr_cycles argsort cycle_stats =
     sort_values argsort win_rate True (filter (\<lambda>row. win_rate row < 50) cycle_stats)"

text \<open>
  Everything the report holds before its footer. An empty \<^verbatim>\<open>cycle_stats\<close> frame has no
  column, and \<^verbatim>\<open>sort_values('win_rate')\<close> raises \<^verbatim>\<open>KeyError\<close> on it (line 292);
  \<^verbatim>\<open>iloc[0]\<close> raises \<^verbatim>\<open>IndexError\<close> on a frame without rows.
\<close>

definition report_body ::
  "(rat list \<Rightarrow> nat list) \<Rightarrow> (cell \<Rightarrow> string) \<Rightarrow> cycle_stat list \<Rightarrow> overall_stat \<Rightarrow> props
     \<Rightarrow> error + string" where
  "report_body argsort py_str cycle_stats overall_stats props =
     (let symbol = props_get py_str props ''Symbol'' ''Unknown'';
          timeframe = props_get py_str props ''Timeframe'' ''Unknown'';
          stop_loss = props_get py_str props ''Stop Loss (points)'' ''N/A'';
          take_profit = props_get py_str props ''Take Profit (points)'' ''N/A'';
          initial_capital = initial_capital_text props;
          ranked = ranked_by_win_rate argsort cycle_stats;
          ranked_pnl = ranked_by_pnl argsort cycle_stats
      in if cycle_stats = [] then Inl (KeyError ''win_rate'')
         else if ranked = [] \<or> ranked_pnl = [] then Inl IndexError
         else Inr
           (report_header symbol timeframe stop_loss take_profit initial_capital overall_stats
            @ concat (map summary_row cycle_stats)
            @ rankings_heading
            @ enumerate_lines win_rate_line 1 ranked
            @ profitability_heading
            @ enumerate_lines pnl_line 1 ranked_pnl
            @ long_short_heading
            @ concat (map long_short_row cycle_stats)
            @ insights_heading
            @ concat (map high_wr_row (take 3 (high_wr_cycles argsort cycle_stats)))
            @ low_wr_heading
            @ concat (map low_wr_row (take 3 (low_wr_cycles argsort cycle_stats)))
            @ recommendations (hd ranked) (last ranked) (hd ranked_pnl) (last ranked_pnl)
                overall_stats
            @ enumerate_lines schedule_line 1 (ranked_by_win_rate argsort cycle_stats)))"

text \<open>\<open>now\<close> is what \<^verbatim>\<open>datetime.now()\<close> returns when line 397 runs.\<close>

definition generate_report ::
  "(rat list \<Rightarrow> nat list) \<Rightarrow> (cell \<Rightarrow> string) \<Rightarrow> stamp \<Rightarrow> cycle_stat list \<Rightarrow> overall_stat
     \<Rightarrow> props \<Rightarrow> error + string" where
  "generate_report argsort py_str now cycle_stats overall_stats props =
     (case report_body argsort py_str cycle_stats overall_stats props of
        Inl e \<Rightarrow> Inl e
      | Inr body \<Rightarrow> Inr (body @ footer now))"

section \<open>Example inputs\<close>

text \<open>A parser that accepts nothing: the example tables hold their timestamps as
  timestamp cells already.\<close>

definition no_parse :: "cell \<Rightarrow> stamp option option" where
  "no_parse c = None"

definition no_str :: "cell \<Rightarrow> string" where
  "no_str c = ''?''"

definition trade_row :: "int \<Rightarrow> int \<Rightarrow> cell \<Rightarrow> cell \<Rightarrow> row" where
  "trade_row h m ty p =
     (\<lambda>c. Null)
       (''Date/Time'' := Stamp \<lparr>dt_year = 2024, dt_month = 1, dt_day = 2,
                                dt_hour = h, dt_minute = m, dt_second = 0\<rparr>,
        ''Type'' := ty,
        ''Profit USD'' := p)"

definition trade_columns :: "string list" where
  "trade_columns = [''Trade #'', ''Type'', ''Date/Time'', ''Profit USD'']"

text \<open>Entries at 07:05, 08:20, 16:20 and 06:59, an exit row, and a row without a type.\<close>

definition boundary_table :: dataframe where
  "boundary_table =
     \<lparr>columns = trade_columns,
      rows = [trade_row 7 5 (Str ''Entry long'') (Num 400),
              trade_row 7 10 (Str ''Exit long'') (Num 400),
              trade_row 8 20 (Str ''Entry short'') (Num (- 50)),
              trade_row 16 20 (Str ''Entry long'') (Num 10),
              trade_row 6 59 (Str ''Entry long'') (Num 10),
              trade_row 9 0 Null (Num 5)]\<rparr>"

text \<open>A table whose type column holds no value at all.\<close>

definition blank_type_table :: dataframe where
  "blank_type_table =
     \<lparr>columns = trade_columns, rows = [trade_row 8 30 Null (Num 50)]\<rparr>"

text \<open>A table whose entries all lie outside the session.\<close>

definition off_session_table :: dataframe where
  "off_session_table =
     \<lparr>columns = trade_columns,
      rows = [trade_row 6 59 (Str ''Entry long'') (Num 10),
              trade_row 16 20 (Str ''Entry short'') (Num 5)]\<rparr>"

definition sample_entry :: "int \<Rightarrow> rat \<Rightarrow> string \<Rightarrow> entry" where
  "sample_entry c p side =
     \<lparr>source = (\<lambda>col. Null), hour = 7 + (c * 80) div 60, minute = (c * 80) mod 60,
      date = (2024, 1, 2), total_mins = c * 80, cycle_num = c,
      is_win = (0 < p), pnl = Some p, trade_type = side\<rparr>"

text \<open>Three trades of one cycle, two of them won.\<close>

definition two_thirds :: "entry list" where
  "two_thirds = [sample_entry 0 10 ''Long'', sample_entry 0 20 ''Short'', sample_entry 0 (- 5) ''Long'']"

text \<open>One cycle of 80 trades with 23 wins, and one of 21 trades with 8 wins.\<close>

definition wins_23_of_80 :: "entry list" where
  "wins_23_of_80 =
     replicate 23 (sample_entry 0 10 ''Long'') @ replicate 57 (sample_entry 0 (- 5) ''Short'')"

definition wins_8_of_21 :: "entry list" where
  "wins_8_of_21 =
     replicate 8 (sample_entry 0 10 ''Long'') @ replicate 13 (sample_entry 0 (- 5) ''Short'')"

text \<open>Four cycles of one trade each: the first two lost, the last two won.\<close>

definition four_cycles :: "entry list" where
  "four_cycles =
     [sample_entry 0 (- 5) ''Long'', sample_entry 1 (- 5) ''Long'',
      sample_entry 2 10 ''Long'', sample_entry 3 10 ''Long'']"

text \<open>Two cycles with the same win rate and the same total P&L.\<close>

definition tied_entries :: "entry list" where
  "tied_entries = [sample_entry 0 10 ''Long'', sample_entry 1 10 ''Long'']"


definition clock_a :: stamp where
  "clock_a = \<lparr>dt_year = 2024, dt_month = 1, dt_day = 2, dt_hour = 10, dt_minute = 0, dt_second = 5\<rparr>"

definition clock_b :: stamp where
  "clock_b = \<lparr>dt_year = 2024, dt_month = 1, dt_day = 2, dt_hour = 10, dt_minute = 0, dt_second = 40\<rparr>"

definition clock_c :: stamp where
  "clock_c = \<lparr>dt_year = 2024, dt_month = 1, dt_day = 2, dt_hour = 10, dt_minute = 1, dt_second = 5\<rparr>"

definition props_sheet :: "string \<Rightarrow> string \<Rightarrow> dataframe" where
  "props_sheet n v =
     \<lparr>columns = [n, v],
      rows = [(\<lambda>c. Null)(n := Str ''Symbol'', v := Str ''ES''),
              (\<lambda>c. Null)(n := Str ''Timeframe'', v := Str ''5'')]\<rparr>"

definition lowercase_workbook :: workbook where
  "lowercase_workbook =
     [(''List of trades'', boundary_table), (''Properties'', props_sheet ''name'' ''value'')]"

definition capitalised_workbook :: workbook where
  "capitalised_workbook =
     [(''List of trades'', boundary_table), (''Properties'', props_sheet ''Name'' ''Value'')]"

section \<open>Properties of the column resolver\<close>

lemma find_first_split:
  "find P xs = Some c \<Longrightarrow> \<exists>pre post. xs = pre @ c # post \<and> P c \<and> (\<forall>x\<in>set pre. \<not> P x)"
proof (induction xs)
  case Nil
  then show ?case by simp
next
  case (Cons a xs)
  show ?case
  proof (cases "P a")
    case True
    with Cons.prems have "a = c" by simp
    with True have "a # xs = [] @ c # xs \<and> P c \<and> (\<forall>x\<in>set []. \<not> P x)" by simp
    then show ?thesis by blast
  next
    case False
    with Cons.prems have "find P xs = Some c" by simp
    from Cons.IH [OF this] obtain pre post
      where "xs = pre @ c # post" "P c" "\<forall>x\<in>set pre. \<not> P x" by blast
    with False have "a # xs = (a # pre) @ c # post \<and> P c \<and> (\<forall>x\<in>set (a # pre). \<not> P x)"
      by simp
    then show ?thesis by blast
  qed
qed

lemma find_exists_Some: "\<exists>x\<in>set xs. P x \<Longrightarrow> \<exists>c. find P xs = Some c"
  by (cases "find P xs") (auto simp: find_None_iff)

lemma find_Some_holds: "find P xs = Some c \<Longrightarrow> c \<in> set xs \<and> P c"
  by (induction xs) (auto split: if_splits)

lemma find_pnl_col_error_iff:
  "find_pnl_col cols = Inl (ValueError ''Could not find P&L column in data'')
     \<longleftrightarrow> (\<forall>c\<in>set cols. \<not> pnl_pass1 c \<and> \<not> pnl_pass2 c)"
proof (cases "find pnl_pass1 cols")
  case None
  note n1 = None
  show ?thesis
  proof (cases "find pnl_pass2 cols")
    case None
    have "find_pnl_col cols = Inl (ValueError ''Could not find P&L column in data'')"
      using n1 None by (simp add: find_pnl_col_def)
    moreover have "\<forall>c\<in>set cols. \<not> pnl_pass1 c \<and> \<not> pnl_pass2 c"
      using n1 None by (auto simp: find_None_iff)
    ultimately show ?thesis by simp
  next
    case (Some c)
    have "find_pnl_col cols = Inr c"
      using n1 Some by (simp add: find_pnl_col_def)
    moreover have "\<exists>c\<in>set cols. pnl_pass2 c"
      using find_Some_holds [OF Some] by blast
    ultimately show ?thesis by auto
  qed
next
  case (Some c)
  have "find_pnl_col cols = Inr c"
    using Some by (simp add: find_pnl_col_def)
  moreover have "\<exists>c\<in>set cols. pnl_pass1 c"
    using find_Some_holds [OF Some] by blast
  ultimately show ?thesis by auto
qed

text \<open>
  C6. The resolved P&L column is the first column, in table order, whose lowercased name
  contains "p&l", "pnl" or "profit" together with "usd" or "net"; when no column passes
  that test it is the first whose lowercased name contains "p&l" or "pnl"; and the block
  raises the missing-P&L-column error exactly when neither test is passed by any column.
\<close>

theorem find_pnl_col_two_pass:
  "((\<exists>c\<in>set cols. pnl_pass1 c) \<longrightarrow>
      (\<exists>pre c post. cols = pre @ c # post \<and> pnl_pass1 c \<and> (\<forall>x\<in>set pre. \<not> pnl_pass1 x)
         \<and> find_pnl_col cols = Inr c))
   \<and> ((\<forall>c\<in>set cols. \<not> pnl_pass1 c) \<and> (\<exists>c\<in>set cols. pnl_pass2 c) \<longrightarrow>
      (\<exists>pre c post. cols = pre @ c # post \<and> pnl_pass2 c \<and> (\<forall>x\<in>set pre. \<not> pnl_pass2 x)
         \<and> find_pnl_col cols = Inr c))
   \<and> (find_pnl_col cols = Inl (ValueError ''Could not find P&L column in data'')
        \<longleftrightarrow> (\<forall>c\<in>set cols. \<not> pnl_pass1 c \<and> \<not> pnl_pass2 c))"
proof (intro conjI impI)
  assume "\<exists>c\<in>set cols. pnl_pass1 c"
  then obtain c where c: "find pnl_pass1 cols = Some c"
    using find_exists_Some [of cols] by blast
  from find_first_split [OF c] obtain pre post
    where "cols = pre @ c # post" "pnl_pass1 c" "\<forall>x\<in>set pre. \<not> pnl_pass1 x" by blast
  moreover from c have "find_pnl_col cols = Inr c" by (simp add: find_pnl_col_def)
  ultimately show "\<exists>pre c post. cols = pre @ c # post \<and> pnl_pass1 c
      \<and> (\<forall>x\<in>set pre. \<not> pnl_pass1 x) \<and> find_pnl_col cols = Inr c"
    by blast
next
  assume a: "(\<forall>c\<in>set cols. \<not> pnl_pass1 c) \<and> (\<exists>c\<in>set cols. pnl_pass2 c)"
  then have n: "find pnl_pass1 cols = None" by (simp add: find_None_iff)
  from a obtain c where c: "find pnl_pass2 cols = Some c"
    using find_exists_Some [of cols] by blast
  from find_first_split [OF c] obtain pre post
    where "cols = pre @ c # post" "pnl_pass2 c" "\<forall>x\<in>set pre. \<not> pnl_pass2 x" by blast
  moreover from n c have "find_pnl_col cols = Inr c" by (simp add: find_pnl_col_def)
  ultimately show "\<exists>pre c post. cols = pre @ c # post \<and> pnl_pass2 c
      \<and> (\<forall>x\<in>set pre. \<not> pnl_pass2 x) \<and> find_pnl_col cols = Inr c"
    by blast
next
  show "find_pnl_col cols = Inl (ValueError ''Could not find P&L column in data'')
        \<longleftrightarrow> (\<forall>c\<in>set cols. \<not> pnl_pass1 c \<and> \<not> pnl_pass2 c)"
    by (rule find_pnl_col_error_iff)
qed

theorem find_pnl_col_two_pass_witness:
  "(\<exists>c. pnl_pass1 c \<and> find_pnl_col [''Date/Time'', ''Cum PnL'', ''Profit USD'', ''Net P&L''] = Inr c)
   \<and> (\<exists>c. pnl_pass2 c \<and> find_pnl_col [''Date/Time'', ''Profit'', ''Cum PnL'', ''P&L''] = Inr c)
   \<and> find_pnl_col [''Date/Time'', ''Profit'', ''Type'']
       = Inl (ValueError ''Could not find P&L column in data'')"
proof -
  have p1: "pnl_pass1 ''Profit USD''" "\<not> pnl_pass1 ''Date/Time''" "\<not> pnl_pass1 ''Cum PnL''"
    "\<not> pnl_pass1 ''Profit''" "\<not> pnl_pass1 ''P&L''" "\<not> pnl_pass1 ''Type''"
    by code_simp+
  have p2: "pnl_pass2 ''Cum PnL''" "\<not> pnl_pass2 ''Date/Time''" "\<not> pnl_pass2 ''Profit''"
    "\<not> pnl_pass2 ''Type''"
    by code_simp+
  have "\<exists>c\<in>set [''Date/Time'', ''Cum PnL'', ''Profit USD'', ''Net P&L'']. pnl_pass1 c"
    using p1(1) by simp
  then have a: "\<exists>c. pnl_pass1 c
      \<and> find_pnl_col [''Date/Time'', ''Cum PnL'', ''Profit USD'', ''Net P&L''] = Inr c"
    using find_pnl_col_two_pass [of "[''Date/Time'', ''Cum PnL'', ''Profit USD'', ''Net P&L'']"]
    by blast
  have "(\<forall>c\<in>set [''Date/Time'', ''Profit'', ''Cum PnL'', ''P&L'']. \<not> pnl_pass1 c)
      \<and> (\<exists>c\<in>set [''Date/Time'', ''Profit'', ''Cum PnL'', ''P&L'']. pnl_pass2 c)"
    using p1 p2 by simp
  then have b: "\<exists>c. pnl_pass2 c
      \<and> find_pnl_col [''Date/Time'', ''Profit'', ''Cum PnL'', ''P&L''] = Inr c"
    using find_pnl_col_two_pass [of "[''Date/Time'', ''Profit'', ''Cum PnL'', ''P&L'']"]
    by blast
  have "\<forall>c\<in>set [''Date/Time'', ''Profit'', ''Type'']. \<not> pnl_pass1 c \<and> \<not> pnl_pass2 c"
    using p1 p2 by simp
  then have c: "find_pnl_col [''Date/Time'', ''Profit'', ''Type'']
       = Inl (ValueError ''Could not find P&L column in data'')"
    using find_pnl_col_two_pass [of "[''Date/Time'', ''Profit'', ''Type'']"]
    by blast
  from a b c show ?thesis by blast
qed

section \<open>Properties of the trade normaliser\<close>

lemma cycle_index_floor:
  "cycle_index h m = \<lfloor>(of_int ((h - 7) * 60 + m) :: rat) / 80\<rfloor>"
proof -
  have "\<lfloor>(of_int ((h - 7) * 60 + m) :: rat) / of_int 80\<rfloor> = ((h - 7) * 60 + m) div 80"
    by (rule floor_divide_of_int_eq)
  then show ?thesis
    by (simp add: cycle_index_def SESSION_START_HOUR_def CYCLE_DURATION_def)
qed

lemma make_entry_fields:
  "make_entry tc pc rt = Inr x \<Longrightarrow>
     source x = fst rt \<and> hour x = dt_hour (snd rt) \<and> minute x = dt_minute (snd rt)
     \<and> total_mins x = (hour x - 7) * 60 + minute x
     \<and> cycle_num x = cycle_index (hour x) (minute x)"
  by (auto simp: make_entry_def Let_def cycle_index_def SESSION_START_HOUR_def
      split: cell.splits)

lemma make_entries_fields:
  "make_entries tc pc rts = Inr es \<Longrightarrow>
     map source es = map fst rts
     \<and> (\<forall>e\<in>set es. \<exists>rt\<in>set rts. source e = fst rt \<and> hour e = dt_hour (snd rt)
            \<and> minute e = dt_minute (snd rt)
            \<and> cycle_num e = cycle_index (hour e) (minute e))"
proof (induction rts arbitrary: es)
  case Nil
  then show ?case by simp
next
  case (Cons rt rts)
  from Cons.prems obtain x xs where
    x: "make_entry tc pc rt = Inr x" and xs: "make_entries tc pc rts = Inr xs" and es: "es = x # xs"
    by (auto split: sum.splits)
  from make_entry_fields [OF x] Cons.IH [OF xs] es show ?case by auto
qed

lemma make_entries_error: "make_entries tc pc rts = Inl e \<Longrightarrow> e = TypeError"
proof (induction rts)
  case Nil
  then show ?case by simp
next
  case (Cons rt rts)
  then show ?case
    by (auto simp: make_entry_def Let_def split: sum.splits cell.splits)
qed

lemma session_rows_fst: "map fst (session_rows dc rs) = filter (in_session dc) rs"
  by (induction rs) (auto simp: session_rows_def in_session_def split: cell.splits)

lemma session_rows_stamp:
  "(r, t) \<in> set (session_rows dc rs) \<Longrightarrow> r \<in> set rs \<and> r dc = Stamp t \<and> in_session dc r"
  by (induction rs) (auto simp: session_rows_def split: cell.splits if_splits)

lemma session_rows_empty: "\<forall>r\<in>set rs. \<not> in_session dc r \<Longrightarrow> session_rows dc rs = []"
  by (induction rs) (auto simp: session_rows_def split: cell.splits)

lemma in_session_floor:
  "in_session dc r \<longleftrightarrow>
     (\<exists>t. r dc = Stamp t
        \<and> 0 \<le> \<lfloor>(of_int ((dt_hour t - 7) * 60 + dt_minute t) :: rat) / 80\<rfloor>
        \<and> \<lfloor>(of_int ((dt_hour t - 7) * 60 + dt_minute t) :: rat) / 80\<rfloor> \<le> 6)"
  by (auto simp: in_session_def cycle_index_floor split: cell.splits)

lemma process_trades_unfold:
  "entry_rows parse df = Inr (dc, tc, pc, dt, rs) \<Longrightarrow>
     process_trades parse df =
       (if rs = [] then Inl (ValueError ''No trade entries found in data'')
        else if dt = Datetime64 then Inl TypeError
        else make_entries tc pc (session_rows dc rs))"
  by (simp add: process_trades_def)

lemma to_datetime_rows_error: "to_datetime_rows parse dc rs = Inl e \<Longrightarrow> e = DateParseError"
proof (induction rs)
  case Nil
  then show ?case by simp
next
  case (Cons r rs)
  then show ?case
    by (auto simp: to_datetime_def split: sum.splits cell.splits option.splits)
qed

lemma find_datetime_col_error:
  "find_datetime_col cols = Inl e \<Longrightarrow> e = ValueError ''Could not find Date/Time column in data''"
  by (cases "find is_datetime_col cols") (simp_all add: find_datetime_col_def)

lemma find_pnl_col_error:
  "find_pnl_col cols = Inl e \<Longrightarrow> e = ValueError ''Could not find P&L column in data''"
  by (cases "find pnl_pass1 cols"; cases "find pnl_pass2 cols") (simp_all add: find_pnl_col_def)

lemma entry_filter_error: "entry_filter tc rs = Inl e \<Longrightarrow> e = AttributeError"
  by (cases tc) (simp_all add: entry_filter_def split: if_splits)

lemma entry_rows_error_cases:
  assumes "entry_rows parse df = Inl e"
  shows "e = ValueError ''Could not find Date/Time column in data''
       \<or> e = ValueError ''Could not find P&L column in data''
       \<or> e = DateParseError \<or> e = AttributeError"
proof (cases "find_datetime_col (columns df)")
  case (Inl e1)
  with assms have "e = e1" by (simp add: entry_rows_def)
  with find_datetime_col_error [OF Inl] show ?thesis by simp
next
  case dc: (Inr dc)
  show ?thesis
  proof (cases "find_pnl_col (columns df)")
    case (Inl e1)
    with assms dc have "e = e1" by (simp add: entry_rows_def)
    with find_pnl_col_error [OF Inl] show ?thesis by simp
  next
    case pc: (Inr pc)
    show ?thesis
    proof (cases "to_datetime_rows parse dc (rows df)")
      case (Inl e1)
      with assms dc pc have "e = e1" by (simp add: entry_rows_def)
      with to_datetime_rows_error [OF Inl] show ?thesis by simp
    next
      case rs: (Inr rs)
      show ?thesis
      proof (cases "entry_filter (find_type_col (columns df)) rs")
        case (Inl e1)
        with assms dc pc rs have "e = e1" by (simp add: entry_rows_def)
        with entry_filter_error [OF Inl] show ?thesis by simp
      next
        case (Inr es)
        with assms dc pc rs show ?thesis by (simp add: entry_rows_def)
      qed
    qed
  qed
qed

lemma message_distinct:
  "ValueError ''Could not find Date/Time column in data'' \<noteq> ValueError ''No trade entries found in data''"
  "ValueError ''Could not find P&L column in data'' \<noteq> ValueError ''No trade entries found in data''"
  by simp_all

lemma entry_rows_error:
  assumes "entry_rows parse df = Inl e"
  shows "e \<noteq> ValueError ''No trade entries found in data''"
  using entry_rows_error_cases [OF assms] message_distinct by (elim disjE) simp_all

lemma entry_rows_parts:
  assumes "entry_rows parse df = Inr (dc, tc, pc, dt, rs)"
  shows "tc = find_type_col (columns df)"
    and "\<exists>rs0. entry_filter tc rs0 = Inr rs"
proof -
  from assms obtain dc' where dc: "find_datetime_col (columns df) = Inr dc'"
    by (cases "find_datetime_col (columns df)") (simp_all add: entry_rows_def)
  from assms dc obtain pc' where pc: "find_pnl_col (columns df) = Inr pc'"
    by (cases "find_pnl_col (columns df)") (simp_all add: entry_rows_def)
  from assms dc pc obtain rs0 where rs0: "to_datetime_rows parse dc' (rows df) = Inr rs0"
    by (cases "to_datetime_rows parse dc' (rows df)") (simp_all add: entry_rows_def)
  from assms dc pc rs0 obtain rs' where f: "entry_filter (find_type_col (columns df)) rs0 = Inr rs'"
    by (cases "entry_filter (find_type_col (columns df)) rs0") (simp_all add: entry_rows_def)
  from assms dc pc rs0 f show tc: "tc = find_type_col (columns df)"
    by (simp add: entry_rows_def)
  from assms dc pc rs0 f have "rs = rs'" by (simp add: entry_rows_def)
  with f tc show "\<exists>rs0. entry_filter tc rs0 = Inr rs" by blast
qed

lemma is_entry_not_Null: "is_entry c \<Longrightarrow> c \<noteq> Null"
  by (auto simp: is_entry_def)

lemma entry_filter_typed:
  "entry_filter (Some tc) rs0 = Inr rs \<Longrightarrow> \<forall>r\<in>set rs. is_entry (r tc)"
  by (auto simp: entry_filter_def split: if_splits)

lemma process_trades_sources:
  assumes er: "entry_rows parse df = Inr (dc, tc, pc, dt, rs)"
    and pt: "process_trades parse df = Inr es"
  shows "map source es = filter (in_session dc) rs"
    and "\<forall>e\<in>set es. \<exists>t. source e dc = Stamp t \<and> hour e = dt_hour t \<and> minute e = dt_minute t
            \<and> cycle_num e = cycle_index (hour e) (minute e)"
proof -
  from pt process_trades_unfold [OF er]
  have me: "make_entries tc pc (session_rows dc rs) = Inr es"
    by (simp split: if_splits)
  from make_entries_fields [OF me] session_rows_fst [of dc rs]
  show "map source es = filter (in_session dc) rs" by simp
  show "\<forall>e\<in>set es. \<exists>t. source e dc = Stamp t \<and> hour e = dt_hour t \<and> minute e = dt_minute t
            \<and> cycle_num e = cycle_index (hour e) (minute e)"
  proof
    fix e assume "e \<in> set es"
    with make_entries_fields [OF me] obtain rt where rt: "rt \<in> set (session_rows dc rs)"
      "source e = fst rt" "hour e = dt_hour (snd rt)" "minute e = dt_minute (snd rt)"
      "cycle_num e = cycle_index (hour e) (minute e)" by blast
    from rt(1) session_rows_stamp [of "fst rt" "snd rt" dc rs] have "fst rt dc = Stamp (snd rt)"
      by simp
    with rt show "\<exists>t. source e dc = Stamp t \<and> hour e = dt_hour t \<and> minute e = dt_minute t
            \<and> cycle_num e = cycle_index (hour e) (minute e)" by auto
  qed
qed

text \<open>
  C1. The cycle index of a row is the floor of ((hour - 7) * 60 + minute) / 80, an entry
  row is kept exactly when that index lies between 0 and 6, and every kept row carries
  that index; 08:20 lies in cycle 1, and 06:59 and 16:20 have the indices -1 and 7, which
  are dropped.
\<close>

theorem cycle_index_session_filter:
  "(\<forall>h m. cycle_index h m = \<lfloor>(of_int ((h - 7) * 60 + m) :: rat) / 80\<rfloor>)
   \<and> (\<forall>dc tc pc dt rs es.
        entry_rows parse df = Inr (dc, tc, pc, dt, rs) \<and> process_trades parse df = Inr es \<longrightarrow>
          map source es =
            filter (\<lambda>r. \<exists>t. r dc = Stamp t \<and> 0 \<le> cycle_index (dt_hour t) (dt_minute t)
                          \<and> cycle_index (dt_hour t) (dt_minute t) \<le> 6) rs
          \<and> (\<forall>e\<in>set es. \<exists>t. source e dc = Stamp t \<and> hour e = dt_hour t \<and> minute e = dt_minute t
                 \<and> cycle_num e = cycle_index (hour e) (minute e)))
   \<and> cycle_index 8 20 = 1 \<and> cycle_index 6 59 = - 1 \<and> cycle_index 16 20 = 7"
proof (intro conjI allI impI)
  fix h m show "cycle_index h m = \<lfloor>(of_int ((h - 7) * 60 + m) :: rat) / 80\<rfloor>"
    by (rule cycle_index_floor)
next
  fix dc tc pc dt rs es
  assume a: "entry_rows parse df = Inr (dc, tc, pc, dt, rs) \<and> process_trades parse df = Inr es"
  have eq: "in_session dc = (\<lambda>r. \<exists>t. r dc = Stamp t \<and> 0 \<le> cycle_index (dt_hour t) (dt_minute t)
                          \<and> cycle_index (dt_hour t) (dt_minute t) \<le> 6)"
    by (rule ext) (auto simp: in_session_def split: cell.splits)
  from a process_trades_sources(1) [of parse df dc tc pc dt rs es] eq
  show "map source es =
            filter (\<lambda>r. \<exists>t. r dc = Stamp t \<and> 0 \<le> cycle_index (dt_hour t) (dt_minute t)
                          \<and> cycle_index (dt_hour t) (dt_minute t) \<le> 6) rs"
    by simp
  from a process_trades_sources(2) [of parse df dc tc pc dt rs es]
  show "\<forall>e\<in>set es. \<exists>t. source e dc = Stamp t \<and> hour e = dt_hour t \<and> minute e = dt_minute t
                 \<and> cycle_num e = cycle_index (hour e) (minute e)"
    by simp
next
  show "cycle_index 8 20 = 1" by code_simp
  show "cycle_index 6 59 = - 1" by code_simp
  show "cycle_index 16 20 = 7" by code_simp
qed

theorem cycle_index_session_filter_witness:
  "\<exists>dc tc pc dt rs es.
     entry_rows no_parse boundary_table = Inr (dc, tc, pc, dt, rs)
     \<and> process_trades no_parse boundary_table = Inr es
     \<and> length rs = 4 \<and> map cycle_num es = [0, 1]
     \<and> map source es =
         filter (\<lambda>r. \<exists>t. r dc = Stamp t \<and> 0 \<le> cycle_index (dt_hour t) (dt_minute t)
                       \<and> cycle_index (dt_hour t) (dt_minute t) \<le> 6) rs"
proof -
  have "case entry_rows no_parse boundary_table of
          Inr (dc, tc, pc, dt, rs) \<Rightarrow> length rs = 4 | Inl e \<Rightarrow> False"
    by code_simp
  then obtain dc tc pc dt rs where
    er: "entry_rows no_parse boundary_table = Inr (dc, tc, pc, dt, rs)" and len: "length rs = 4"
    by (auto split: sum.splits)
  have "case process_trades no_parse boundary_table of
          Inr es \<Rightarrow> map cycle_num es = [0, 1] | Inl e \<Rightarrow> False"
    by code_simp
  then obtain es where
    pt: "process_trades no_parse boundary_table = Inr es" and cn: "map cycle_num es = [0, 1]"
    by (auto split: sum.splits)
  from er pt cycle_index_session_filter [of no_parse boundary_table]
  have flt: "map source es =
         filter (\<lambda>r. \<exists>t. r dc = Stamp t \<and> 0 \<le> cycle_index (dt_hour t) (dt_minute t)
                       \<and> cycle_index (dt_hour t) (dt_minute t) \<le> 6) rs"
    by blast
  show ?thesis
    by (intro exI conjI) (rule er, rule pt, rule len, rule cn, rule flt)
qed

lemma process_trades_source_rows:
  assumes er: "entry_rows parse df = Inr (dc, tc, pc, dt, rs)"
    and pt: "process_trades parse df = Inr es"
  shows "\<forall>e\<in>set es. source e \<in> set rs"
proof -
  from process_trades_sources(1) [OF er pt] have "set (map source es) \<subseteq> set rs" by auto
  then show ?thesis by auto
qed

text \<open>
  Missing trade types. When the trade-type column is one the string accessor applies to
  (object dtype: it holds a string, or the table has no rows), the entry filter returns
  the rows whose type contains "entry" and raises nothing, and a row whose type is missing
  is not among them; no entry that \<open>process_trades\<close> returns comes from a row whose type is
  missing, so such a row is in no cycle and in no statistic.
\<close>

theorem entry_filter_drops_missing_type:
  "(col_dtype (map (\<lambda>r. r tc) rs) = Object \<longrightarrow>
      entry_filter (Some tc) rs = Inr (filter (\<lambda>r. is_entry (r tc)) rs)
      \<and> (\<forall>r\<in>set rs. r tc = Null \<longrightarrow> r \<notin> set (filter (\<lambda>r. is_entry (r tc)) rs)))
   \<and> (find_type_col (columns df) = Some tc \<and> process_trades parse df = Inr es \<longrightarrow>
        (\<forall>e\<in>set es. source e tc \<noteq> Null))"
proof (intro conjI impI)
  assume "col_dtype (map (\<lambda>r. r tc) rs) = Object"
  then show "entry_filter (Some tc) rs = Inr (filter (\<lambda>r. is_entry (r tc)) rs)"
    by (simp add: entry_filter_def)
next
  show "\<forall>r\<in>set rs. r tc = Null \<longrightarrow> r \<notin> set (filter (\<lambda>r. is_entry (r tc)) rs)"
    by (auto simp: is_entry_def)
next
  assume a: "find_type_col (columns df) = Some tc \<and> process_trades parse df = Inr es"
  then obtain x where x: "entry_rows parse df = Inr x"
    by (cases "entry_rows parse df") (simp_all add: process_trades_def)
  obtain dc tc' pc dt rs where x': "x = (dc, tc', pc, dt, rs)"
    by (cases x) auto
  from x x' have er: "entry_rows parse df = Inr (dc, tc', pc, dt, rs)" by simp
  from entry_rows_parts [OF er] a obtain rs0 where f: "entry_filter (Some tc) rs0 = Inr rs"
    by auto
  from entry_filter_typed [OF f] have "\<forall>r\<in>set rs. r tc \<noteq> Null"
    using is_entry_not_Null by blast
  with process_trades_source_rows [OF er] a show "\<forall>e\<in>set es. source e tc \<noteq> Null"
    by blast
qed

theorem entry_filter_drops_missing_type_witness:
  "\<exists>es. find_type_col (columns boundary_table) = Some ''Type''
     \<and> process_trades no_parse boundary_table = Inr es
     \<and> length es = 2
     \<and> list_all (\<lambda>e. source e ''Type'' \<noteq> Null) es
     \<and> length (filter (\<lambda>r. r ''Type'' = Null) (rows boundary_table)) = 1"
proof -
  have tc: "find_type_col (columns boundary_table) = Some ''Type''"
    by code_simp
  have "case process_trades no_parse boundary_table of
          Inr es \<Rightarrow> length es = 2 | Inl e \<Rightarrow> False"
    by code_simp
  then obtain es where
    pt: "process_trades no_parse boundary_table = Inr es" and len: "length es = 2"
    by (auto split: sum.splits)
  from tc pt entry_filter_drops_missing_type [of "''Type''" "[]" boundary_table no_parse es]
  have "\<forall>e\<in>set es. source e ''Type'' \<noteq> Null" by blast
  then have nn: "list_all (\<lambda>e. source e ''Type'' \<noteq> Null) es"
    by (simp add: list_all_iff)
  have one: "length (filter (\<lambda>r. r ''Type'' = Null) (rows boundary_table)) = 1"
    by code_simp
  show ?thesis
    by (intro exI conjI) (rule tc, rule pt, rule len, rule nn, rule one)
qed

text \<open>
  C9. A row whose trade type is missing can cause an error. In a table whose type column
  holds no string at all, every type being missing, the column is not of object dtype:
  the string accessor raises \<^verbatim>\<open>AttributeError\<close> before any row is tested, and
  \<open>process_trades\<close> returns no trade sequence. The test of the entry filter, applied to the
  cells, drops the row: no row would be left, which is the case of the no-entries error.
\<close>

theorem blank_type_column_raises:
  "find_type_col (columns blank_type_table) = Some ''Type''
   \<and> map (\<lambda>r. r ''Type'') (rows blank_type_table) = [Null]
   \<and> length (filter (\<lambda>r. is_entry (r ''Type'')) (rows blank_type_table)) = 0
   \<and> process_trades no_parse blank_type_table = Inl AttributeError"
proof -
  have a: "find_type_col (columns blank_type_table) = Some ''Type''"
    by code_simp
  have b: "map (\<lambda>r. r ''Type'') (rows blank_type_table) = [Null]"
    by code_simp
  have c: "length (filter (\<lambda>r. is_entry (r ''Type'')) (rows blank_type_table)) = 0"
    by code_simp
  have "case process_trades no_parse blank_type_table of
          Inl e \<Rightarrow> e = AttributeError | Inr es \<Rightarrow> False"
    by code_simp
  then have d: "process_trades no_parse blank_type_table = Inl AttributeError"
    by (auto split: sum.splits)
  show ?thesis
    by (intro conjI) (rule a, rule b, rule c, rule d)
qed

text \<open>
  C10. \<open>process_trades\<close> raises the no-entries error exactly when the entry filter ran and
  left no row. When rows pass the filter but none of them lies in the session, the result
  is the empty trade sequence (the P&L column not being a timestamp column, whose
  comparison with 0 raises): the aggregator then yields no cycle row and a total of 0
  trades, and the renderer is entered with them and fails on the missing column.
\<close>

theorem empty_check_precedes_session_filter:
  "(process_trades parse df = Inl (ValueError ''No trade entries found in data'')
      \<longleftrightarrow> (\<exists>dc tc pc dt. entry_rows parse df = Inr (dc, tc, pc, dt, [])))
   \<and> (\<forall>dc tc pc dt rs.
        entry_rows parse df = Inr (dc, tc, pc, dt, rs) \<and> rs \<noteq> []
        \<and> (\<forall>r\<in>set rs. \<not> in_session dc r) \<longrightarrow>
          process_trades parse df \<noteq> Inl (ValueError ''No trade entries found in data'')
          \<and> (dt \<noteq> Datetime64 \<longrightarrow>
               process_trades parse df = Inr []
               \<and> calculate_cycle_stats [] = []
               \<and> o_total_trades (calculate_overall_stats []) = 0
               \<and> generate_report argsort py_str now (calculate_cycle_stats [])
                    (calculate_overall_stats []) props = Inl (KeyError ''win_rate'')))"
proof (intro conjI allI impI)
  show "process_trades parse df = Inl (ValueError ''No trade entries found in data'')
      \<longleftrightarrow> (\<exists>dc tc pc dt. entry_rows parse df = Inr (dc, tc, pc, dt, []))"
  proof (cases "entry_rows parse df")
    case (Inl e)
    then have "process_trades parse df = Inl e" by (simp add: process_trades_def)
    with entry_rows_error [OF Inl] Inl show ?thesis by simp
  next
    case (Inr x)
    obtain dc tc pc dt rs where x: "x = (dc, tc, pc, dt, rs)" by (cases x) auto
    with Inr have er: "entry_rows parse df = Inr (dc, tc, pc, dt, rs)" by simp
    show ?thesis
    proof (cases "rs = []")
      case True
      with process_trades_unfold [OF er] er show ?thesis by auto
    next
      case False
      have "make_entries tc pc (session_rows dc rs) \<noteq> Inl (ValueError ''No trade entries found in data'')"
        using make_entries_error [of tc pc "session_rows dc rs"] by auto
      with False process_trades_unfold [OF er] er show ?thesis by auto
    qed
  qed
next
  fix dc tc pc dt rs
  assume a: "entry_rows parse df = Inr (dc, tc, pc, dt, rs) \<and> rs \<noteq> []
        \<and> (\<forall>r\<in>set rs. \<not> in_session dc r)"
  then have er: "entry_rows parse df = Inr (dc, tc, pc, dt, rs)" by simp
  from a have s: "session_rows dc rs = []" by (simp add: session_rows_empty)
  from a s process_trades_unfold [OF er]
  show "process_trades parse df \<noteq> Inl (ValueError ''No trade entries found in data'')"
    by auto
  assume "dt \<noteq> Datetime64"
  with a s process_trades_unfold [OF er] show "process_trades parse df = Inr []"
    by simp
  show "calculate_cycle_stats [] = []"
    by (simp add: calculate_cycle_stats_def cycle_row_def)
  show "o_total_trades (calculate_overall_stats []) = 0"
    by (simp add: calculate_overall_stats_def)
  show "generate_report argsort py_str now (calculate_cycle_stats [])
                    (calculate_overall_stats []) props = Inl (KeyError ''win_rate'')"
    by (simp add: calculate_cycle_stats_def cycle_row_def generate_report_def report_body_def Let_def)
qed

theorem empty_check_precedes_session_filter_witness:
  "\<exists>dc tc pc dt rs.
     entry_rows no_parse off_session_table = Inr (dc, tc, pc, dt, rs)
     \<and> length rs = 2
     \<and> process_trades no_parse off_session_table = Inr []
     \<and> generate_report stable_argsort no_str clock_a (calculate_cycle_stats [])
          (calculate_overall_stats []) Map.empty = Inl (KeyError ''win_rate'')"
proof -
  have "case entry_rows no_parse off_session_table of
          Inr (dc, tc, pc, dt, rs) \<Rightarrow>
            length rs = 2 \<and> list_all (\<lambda>r. \<not> in_session dc r) rs \<and> dt \<noteq> Datetime64
        | Inl e \<Rightarrow> False"
    by code_simp
  then obtain dc tc pc dt rs where
    er: "entry_rows no_parse off_session_table = Inr (dc, tc, pc, dt, rs)"
    and len: "length rs = 2" and out: "\<forall>r\<in>set rs. \<not> in_session dc r" and dt: "dt \<noteq> Datetime64"
    by (auto split: sum.splits simp: list_all_iff)
  from len have ne: "rs \<noteq> []" by auto
  from er ne out dt
    empty_check_precedes_session_filter [of no_parse off_session_table stable_argsort no_str clock_a Map.empty]
  have r: "process_trades no_parse off_session_table = Inr []
     \<and> generate_report stable_argsort no_str clock_a (calculate_cycle_stats [])
          (calculate_overall_stats []) Map.empty = Inl (KeyError ''win_rate'')"
    by blast
  show ?thesis
    by (intro exI conjI) (rule er, rule len, rule r [THEN conjunct1], rule r [THEN conjunct2])
qed

subsection \<open>The resolver inside \<open>process_trades\<close>\<close>

text \<open>
  Seen from \<open>process_trades\<close>, the missing-P&L error is raised exactly when the timestamp
  column was found (its own error comes first) and both passes of the P&L search find
  nothing.
\<close>

lemma process_trades_pnl_error_iff:
  "process_trades parse df = Inl (ValueError ''Could not find P&L column in data'')
     \<longleftrightarrow> (\<exists>dc. find_datetime_col (columns df) = Inr dc)
         \<and> (\<forall>c\<in>set (columns df). \<not> pnl_pass1 c \<and> \<not> pnl_pass2 c)"
proof (cases "find_datetime_col (columns df)")
  case (Inl e)
  then have "process_trades parse df = Inl e"
    by (simp add: process_trades_def entry_rows_def)
  moreover from find_datetime_col_error [OF Inl]
  have "e \<noteq> ValueError ''Could not find P&L column in data''" by simp
  ultimately show ?thesis using Inl by simp
next
  case dc: (Inr dc)
  show ?thesis
  proof (cases "find_pnl_col (columns df)")
    case (Inl e)
    with dc have "process_trades parse df = Inl e"
      by (simp add: process_trades_def entry_rows_def)
    with find_pnl_col_error [OF Inl] Inl dc find_pnl_col_error_iff [of "columns df"]
    show ?thesis by simp
  next
    case pc: (Inr pc)
    with find_pnl_col_error_iff [of "columns df"]
    have n: "\<not> (\<forall>c\<in>set (columns df). \<not> pnl_pass1 c \<and> \<not> pnl_pass2 c)" by simp
    have "process_trades parse df \<noteq> Inl (ValueError ''Could not find P&L column in data'')"
    proof (cases "entry_rows parse df")
      case (Inl e)
      from entry_rows_error_cases [OF Inl] dc pc Inl
      have "e = DateParseError \<or> e = AttributeError"
        by (auto simp: entry_rows_def split: sum.splits
            dest: to_datetime_rows_error entry_filter_error)
      moreover from Inl have "process_trades parse df = Inl e"
        by (simp add: process_trades_def)
      ultimately show ?thesis by auto
    next
      case (Inr x)
      obtain dc' tc pc' dt rs where x: "x = (dc', tc, pc', dt, rs)" by (cases x) auto
      with Inr have er: "entry_rows parse df = Inr (dc', tc, pc', dt, rs)" by simp
      have "make_entries tc pc' (session_rows dc' rs)
          \<noteq> Inl (ValueError ''Could not find P&L column in data'')"
        using make_entries_error [of tc pc' "session_rows dc' rs"] by auto
      with process_trades_unfold [OF er] show ?thesis by auto
    qed
    with n show ?thesis by simp
  qed
qed

section \<open>Properties of the aggregator\<close>

lemma cycle_row_member:
  assumes "c \<in> set (cycle_row es k)"
  shows "cycle c = k"
    and "filter (\<lambda>e. cycle_num e = k) es \<noteq> []"
    and "total_trades c = int (length (filter (\<lambda>e. cycle_num e = k) es))"
    and "wins c = count_wins (filter (\<lambda>e. cycle_num e = k) es)"
    and "losses c = total_trades c - wins c"
    and "win_rate c = win_pct 1 (filter (\<lambda>e. cycle_num e = k) es)"
    and "long_trades c
           = int (length (filter (\<lambda>e. trade_type e = ''Long'') (filter (\<lambda>e. cycle_num e = k) es)))"
    and "short_trades c
           = int (length (filter (\<lambda>e. trade_type e = ''Short'') (filter (\<lambda>e. cycle_num e = k) es)))"
  using assms by (auto simp: cycle_row_def Let_def split: if_splits)

lemma cycle_row_cycles:
  "map cycle (cycle_row es k) = (if \<exists>e\<in>set es. cycle_num e = k then [k] else [])"
  by (auto simp: cycle_row_def Let_def filter_empty_conv)

lemma concat_cycle_rows:
  "map cycle (concat (map (cycle_row es) ks)) = filter (\<lambda>k. \<exists>e\<in>set es. cycle_num e = k) ks"
  by (induction ks) (simp_all add: cycle_row_cycles)

lemma calculate_cycle_stats_member:
  "c \<in> set (calculate_cycle_stats es) \<Longrightarrow> \<exists>k. c \<in> set (cycle_row es k)"
  by (auto simp: calculate_cycle_stats_def)

lemma long_short_partition:
  "\<forall>e\<in>set xs. trade_type e = ''Long'' \<or> trade_type e = ''Short'' \<Longrightarrow>
     length (filter (\<lambda>e. trade_type e = ''Long'') xs)
       + length (filter (\<lambda>e. trade_type e = ''Short'') xs) = length xs"
  by (induction xs) auto

lemma count_wins_filter:
  "count_wins (filter P es) = int (length (filter (\<lambda>e. P e \<and> is_win e) es))"
proof -
  have "filter is_win (filter P es) = filter (\<lambda>e. P e \<and> is_win e) es"
    by (induction es) auto
  then show ?thesis by (simp add: count_wins_def)
qed

lemma np_round_grid: "0 < n \<Longrightarrow> \<exists>k::int. np_round x n = fl (of_int k / 10 ^ n)"
  by (auto simp: np_round_def)

text \<open>
  C2 (as amended). Every cycle row the aggregator produces has wins + losses = total trades and at least
  one trade, and its long and short counts add up to the total when every trade is Long
  or Short; the rows are those of the cycles 0 to 6 that have a trade, in that order, and
  count the trades and the wins of their cycle. Its win rate is the double the code
  computes: the quotient wins / total, times 100, rounded by numpy to one decimal, each
  step in double precision.
\<close>

theorem cycle_stat_invariants:
  "(\<forall>c\<in>set (calculate_cycle_stats es).
      wins c + losses c = total_trades c
      \<and> 0 < total_trades c
      \<and> win_rate c = np_round (fl (fl (of_int (wins c) / of_int (total_trades c)) * 100)) 1
      \<and> total_trades c = int (length (filter (\<lambda>e. cycle_num e = cycle c) es))
      \<and> wins c = int (length (filter (\<lambda>e. cycle_num e = cycle c \<and> is_win e) es))
      \<and> ((\<forall>e\<in>set es. trade_type e = ''Long'' \<or> trade_type e = ''Short'') \<longrightarrow>
            long_trades c + short_trades c = total_trades c))
   \<and> map cycle (calculate_cycle_stats es)
        = filter (\<lambda>k. \<exists>e\<in>set es. cycle_num e = k) [0, 1, 2, 3, 4, 5, 6]"
proof (intro conjI ballI)
  fix c assume "c \<in> set (calculate_cycle_stats es)"
  then obtain k where k: "c \<in> set (cycle_row es k)"
    using calculate_cycle_stats_member by blast
  note m = cycle_row_member [OF k]
  from m(5) show "wins c + losses c = total_trades c" by simp
  from m(2,3) show "0 < total_trades c" by simp
  from m(3,4,6)
  show "win_rate c = np_round (fl (fl (of_int (wins c) / of_int (total_trades c)) * 100)) 1"
    by (simp add: win_pct_def)
  from m(1,3) show "total_trades c = int (length (filter (\<lambda>e. cycle_num e = cycle c) es))"
    by simp
  from m(1,4) show "wins c = int (length (filter (\<lambda>e. cycle_num e = cycle c \<and> is_win e) es))"
    by (simp add: count_wins_filter)
  show "(\<forall>e\<in>set es. trade_type e = ''Long'' \<or> trade_type e = ''Short'') \<longrightarrow>
            long_trades c + short_trades c = total_trades c"
  proof
    assume "\<forall>e\<in>set es. trade_type e = ''Long'' \<or> trade_type e = ''Short''"
    then have "\<forall>e\<in>set (filter (\<lambda>e. cycle_num e = k) es).
        trade_type e = ''Long'' \<or> trade_type e = ''Short''" by simp
    from long_short_partition [OF this] m(3,7,8)
    show "long_trades c + short_trades c = total_trades c" by simp
  qed
next
  show "map cycle (calculate_cycle_stats es)
        = filter (\<lambda>k. \<exists>e\<in>set es. cycle_num e = k) [0, 1, 2, 3, 4, 5, 6]"
    unfolding calculate_cycle_stats_def by (rule concat_cycle_rows)
qed

theorem cycle_stat_invariants_witness:
  "map cycle (calculate_cycle_stats two_thirds) = [0]
   \<and> list_all (\<lambda>c. wins c + losses c = total_trades c
         \<and> win_rate c = np_round (fl (fl (of_int (wins c) / of_int (total_trades c)) * 100)) 1
         \<and> long_trades c + short_trades c = total_trades c)
       (calculate_cycle_stats two_thirds)
   \<and> map total_trades (calculate_cycle_stats two_thirds) = [3]
   \<and> map wins (calculate_cycle_stats two_thirds) = [2]
   \<and> map win_rate (calculate_cycle_stats two_thirds) = [fl (667 / 10)]"
proof -
  have sides: "\<forall>e\<in>set two_thirds. trade_type e = ''Long'' \<or> trade_type e = ''Short''"
    by (simp add: two_thirds_def sample_entry_def)
  have "\<forall>c\<in>set (calculate_cycle_stats two_thirds).
      wins c + losses c = total_trades c
      \<and> win_rate c = np_round (fl (fl (of_int (wins c) / of_int (total_trades c)) * 100)) 1
      \<and> long_trades c + short_trades c = total_trades c"
    using cycle_stat_invariants [of two_thirds] sides by blast
  then have a: "list_all (\<lambda>c. wins c + losses c = total_trades c
         \<and> win_rate c = np_round (fl (fl (of_int (wins c) / of_int (total_trades c)) * 100)) 1
         \<and> long_trades c + short_trades c = total_trades c)
       (calculate_cycle_stats two_thirds)"
    by (simp add: list_all_iff)
  have b: "map cycle (calculate_cycle_stats two_thirds) = [0]" by code_simp
  have c: "map total_trades (calculate_cycle_stats two_thirds) = [3]" by code_simp
  have d: "map wins (calculate_cycle_stats two_thirds) = [2]" by code_simp
  have e: "map win_rate (calculate_cycle_stats two_thirds) = [fl (667 / 10)]" by code_simp
  show ?thesis
    by (intro conjI) (rule b, rule a, rule c, rule d, rule e)
qed

text \<open>
  The win rate is not always round(100 * wins / total, 1). For 23 wins of 80 trades the
  exact percentage is 28.75, which rounds to 28.8; the double quotient times 100 lies
  below 28.75, and the code's win rate is the double 28.7, printed as 28.7.
\<close>

theorem win_rate_formula_counterexample:
  "map total_trades (calculate_cycle_stats wins_23_of_80) = [80]
   \<and> map wins (calculate_cycle_stats wins_23_of_80) = [23]
   \<and> map losses (calculate_cycle_stats wins_23_of_80) = [57]
   \<and> map win_rate (calculate_cycle_stats wins_23_of_80) = [fl (287 / 10)]
   \<and> spec_round (100 * 23 / 80) 1 = 288 / 10
   \<and> fl (fl (23 / 80) * 100) < 2875 / 100
   \<and> 1 / 10 ^ 9 < \<bar>fl (287 / 10) - spec_round (100 * 23 / 80) 1\<bar>
   \<and> format_f False 1 (fl (287 / 10)) = ''28.7''"
proof -
  have a: "map total_trades (calculate_cycle_stats wins_23_of_80) = [80]" by code_simp
  have b: "map wins (calculate_cycle_stats wins_23_of_80) = [23]" by code_simp
  have c: "map losses (calculate_cycle_stats wins_23_of_80) = [57]" by code_simp
  have d: "map win_rate (calculate_cycle_stats wins_23_of_80) = [fl (287 / 10)]" by code_simp
  have e: "spec_round (100 * 23 / 80) 1 = 288 / 10" by code_simp
  have f: "fl (fl (23 / 80) * 100) < 2875 / 100" by code_simp
  have g: "1 / 10 ^ 9 < \<bar>fl (287 / 10) - spec_round (100 * 23 / 80) 1\<bar>" by code_simp
  have h: "format_f False 1 (fl (287 / 10)) = ''28.7''" by code_simp
  show ?thesis
    by (intro conjI) (rule a, rule b, rule c, rule d, rule e, rule f, rule g, rule h)
qed

text \<open>
  C7 (as amended). The overall statistics count the trades and the wins of the whole sequence, and the
  overall win rate is their percentage rounded by numpy to two decimals: the double
  nearest to a multiple of 0.01. Every cycle row counts the trades and the wins of its
  cycle, and its win rate is rounded to one decimal: the double nearest to a multiple of
  0.1. For three trades of one cycle with two wins the overall value is the double 66.67
  and the cycle's is the double 66.7, which differ.
\<close>

theorem win_rate_precision_asymmetry:
  "(es \<noteq> [] \<longrightarrow>
      o_total_trades (calculate_overall_stats es) = int (length es)
      \<and> o_total_wins (calculate_overall_stats es) = int (length (filter is_win es))
      \<and> o_overall_wr (calculate_overall_stats es)
          = Some (np_round (fl (fl (of_int (int (length (filter is_win es)))
                                     / of_int (int (length es))) * 100)) 2)
      \<and> (\<exists>k::int. o_overall_wr (calculate_overall_stats es) = Some (fl (of_int k / 100))))
   \<and> (\<forall>c\<in>set (calculate_cycle_stats es).
        total_trades c = int (length (filter (\<lambda>e. cycle_num e = cycle c) es))
        \<and> wins c = int (length (filter (\<lambda>e. cycle_num e = cycle c \<and> is_win e) es))
        \<and> win_rate c = np_round (fl (fl (of_int (wins c) / of_int (total_trades c)) * 100)) 1
        \<and> (\<exists>k::int. win_rate c = fl (of_int k / 10)))
   \<and> o_overall_wr (calculate_overall_stats two_thirds) = Some (fl (6667 / 100))
   \<and> map win_rate (calculate_cycle_stats two_thirds) = [fl (667 / 10)]
   \<and> fl (6667 / 100) \<noteq> fl (667 / 10)"
proof (intro conjI impI ballI)
  assume ne: "es \<noteq> []"
  show "o_total_trades (calculate_overall_stats es) = int (length es)"
    by (simp add: calculate_overall_stats_def Let_def)
  show "o_total_wins (calculate_overall_stats es) = int (length (filter is_win es))"
    by (simp add: calculate_overall_stats_def Let_def count_wins_def)
  from ne show o: "o_overall_wr (calculate_overall_stats es)
          = Some (np_round (fl (fl (of_int (int (length (filter is_win es)))
                                     / of_int (int (length es))) * 100)) 2)"
    by (simp add: calculate_overall_stats_def Let_def win_pct_def count_wins_def)
  from np_round_grid [of 2 "fl (fl (of_int (int (length (filter is_win es)))
                                     / of_int (int (length es))) * 100)"]
  obtain k :: int where "np_round (fl (fl (of_int (int (length (filter is_win es)))
                                     / of_int (int (length es))) * 100)) 2 = fl (of_int k / 100)"
    by auto
  with o show "\<exists>k::int. o_overall_wr (calculate_overall_stats es) = Some (fl (of_int k / 100))"
    by auto
next
  fix c assume "c \<in> set (calculate_cycle_stats es)"
  then obtain k where k: "c \<in> set (cycle_row es k)"
    using calculate_cycle_stats_member by blast
  note m = cycle_row_member [OF k]
  from m(1,3) show "total_trades c = int (length (filter (\<lambda>e. cycle_num e = cycle c) es))"
    by simp
  from m(1,4) show "wins c = int (length (filter (\<lambda>e. cycle_num e = cycle c \<and> is_win e) es))"
    by (simp add: count_wins_filter)
  from m(3,4,6)
  show w: "win_rate c = np_round (fl (fl (of_int (wins c) / of_int (total_trades c)) * 100)) 1"
    by (simp add: win_pct_def)
  from np_round_grid [of 1 "fl (fl (of_int (wins c) / of_int (total_trades c)) * 100)"] w
  show "\<exists>k::int. win_rate c = fl (of_int k / 10)" by auto
next
  show "o_overall_wr (calculate_overall_stats two_thirds) = Some (fl (6667 / 100))" by code_simp
  show "map win_rate (calculate_cycle_stats two_thirds) = [fl (667 / 10)]" by code_simp
  show "fl (6667 / 100) \<noteq> fl (667 / 10)" by code_simp
qed

theorem win_rate_precision_asymmetry_witness:
  "two_thirds \<noteq> []
   \<and> o_total_trades (calculate_overall_stats two_thirds) = 3
   \<and> o_total_wins (calculate_overall_stats two_thirds) = 2
   \<and> (\<exists>k::int. o_overall_wr (calculate_overall_stats two_thirds) = Some (fl (of_int k / 100)))
   \<and> o_overall_wr (calculate_overall_stats two_thirds) = Some (fl (6667 / 100))
   \<and> map win_rate (calculate_cycle_stats two_thirds) = [fl (667 / 10)]
   \<and> fl (6667 / 100) \<noteq> fl (667 / 10)"
proof -
  have ne: "two_thirds \<noteq> []" by (simp add: two_thirds_def)
  have len: "int (length two_thirds) = 3" by (simp add: two_thirds_def)
  have won: "int (length (filter is_win two_thirds)) = 2"
    by (simp add: two_thirds_def sample_entry_def)
  note t = win_rate_precision_asymmetry [of two_thirds]
  from t ne len have a: "o_total_trades (calculate_overall_stats two_thirds) = 3" by simp
  from t ne won have b: "o_total_wins (calculate_overall_stats two_thirds) = 2" by simp
  from t ne
  have c: "\<exists>k::int. o_overall_wr (calculate_overall_stats two_thirds) = Some (fl (of_int k / 100))"
    by blast
  from t have d: "o_overall_wr (calculate_overall_stats two_thirds) = Some (fl (6667 / 100))"
    by blast
  from t have e: "map win_rate (calculate_cycle_stats two_thirds) = [fl (667 / 10)]"
    by blast
  from t have f: "fl (6667 / 100) \<noteq> fl (667 / 10)" by blast
  show ?thesis
    by (intro conjI) (rule ne, rule a, rule b, rule c, rule d, rule e, rule f)
qed

text \<open>
  The two values need not differ where the win ratio is a repeating fraction. For 8 wins
  of 21 trades (0.380952 380952 ...) the overall win rate and the cycle's win rate are
  both the double 38.1: the percentage 38.0952... rounds to 38.10 and to 38.1.
\<close>

theorem repeating_fraction_counterexample:
  "o_total_trades (calculate_overall_stats wins_8_of_21) = 21
   \<and> o_total_wins (calculate_overall_stats wins_8_of_21) = 8
   \<and> o_overall_wr (calculate_overall_stats wins_8_of_21) = Some (fl (381 / 10))
   \<and> map win_rate (calculate_cycle_stats wins_8_of_21) = [fl (381 / 10)]
   \<and> spec_round (100 * 8 / 21) 2 = spec_round (100 * 8 / 21) 1"
proof -
  have a: "o_total_trades (calculate_overall_stats wins_8_of_21) = 21" by code_simp
  have b: "o_total_wins (calculate_overall_stats wins_8_of_21) = 8" by code_simp
  have c: "o_overall_wr (calculate_overall_stats wins_8_of_21) = Some (fl (381 / 10))"
    by code_simp
  have d: "map win_rate (calculate_cycle_stats wins_8_of_21) = [fl (381 / 10)]" by code_simp
  have e: "spec_round (100 * 8 / 21) 2 = spec_round (100 * 8 / 21) 1" by code_simp
  show ?thesis
    by (intro conjI) (rule a, rule b, rule c, rule d, rule e)
qed

section \<open>Properties of the loader\<close>

lemma find_append_first:
  "\<forall>x\<in>set pre. \<not> P x \<Longrightarrow> P y \<Longrightarrow> find P (pre @ y # post) = Some y"
  by (induction pre) auto

lemma dict_zip_last:
  "dict_zip rs k =
     (case filter (\<lambda>r. r ''name'' = k) rs of
        [] \<Rightarrow> None
      | m # ms \<Rightarrow> Some (last (m # ms) ''value''))"
proof (induction rs rule: rev_induct)
  case Nil
  show ?case by (simp add: dict_zip_def)
next
  case (snoc x xs)
  show ?case
  proof (cases "x ''name'' = k")
    case True
    then have "dict_zip (xs @ [x]) k = Some (x ''value'')"
      by (simp add: dict_zip_def)
    moreover from True have "filter (\<lambda>r. r ''name'' = k) (xs @ [x])
        = filter (\<lambda>r. r ''name'' = k) xs @ [x]" by simp
    ultimately show ?thesis
      by (cases "filter (\<lambda>r. r ''name'' = k) xs") simp_all
  next
    case False
    then have "dict_zip (xs @ [x]) k = dict_zip xs k"
      by (simp add: dict_zip_def)
    moreover from False have "filter (\<lambda>r. r ''name'' = k) (xs @ [x])
        = filter (\<lambda>r. r ''name'' = k) xs" by simp
    ultimately show ?thesis using snoc by simp
  qed
qed

lemma load_data_props:
  "load_data ext all_sheets csv = Inr (df, ps) \<Longrightarrow>
     ps = (if lower ext = ''.xlsx'' \<or> lower ext = ''.xls'' then load_props all_sheets
           else Map.empty)"
  by (auto simp: load_data_def split: if_splits option.splits list.splits)

text \<open>
  C5 (as amended). For a spreadsheet the metadata comes from the first sheet, in workbook
  order, whose name contains "propert" after lowercasing: when that sheet has a column
  named exactly \<^verbatim>\<open>name\<close> and one named exactly \<^verbatim>\<open>value\<close> the mapping is built from the
  two columns row by row, a later row replacing an earlier one with the same key;
  otherwise, and when no sheet name contains "propert", the mapping is empty. A
  delimited-text file has empty metadata.
\<close>

theorem load_props_first_propert_sheet:
  "(\<forall>pre name d post.
      all_sheets = pre @ (name, d) # post \<and> contains ''propert'' (lower name)
      \<and> (\<forall>s\<in>set pre. \<not> contains ''propert'' (lower (fst s))) \<longrightarrow>
        load_props all_sheets =
          (if ''name'' \<in> set (columns d) \<and> ''value'' \<in> set (columns d) then dict_zip (rows d)
           else Map.empty))
   \<and> ((\<forall>s\<in>set all_sheets. \<not> contains ''propert'' (lower (fst s))) \<longrightarrow>
         load_props all_sheets = Map.empty)
   \<and> (\<forall>rs k. dict_zip rs k =
         (case filter (\<lambda>r. r ''name'' = k) rs of
            [] \<Rightarrow> None
          | m # ms \<Rightarrow> Some (last (m # ms) ''value'')))
   \<and> (\<forall>df ps. load_data ext all_sheets csv = Inr (df, ps) \<longrightarrow>
         ps = (if lower ext = ''.xlsx'' \<or> lower ext = ''.xls'' then load_props all_sheets
               else Map.empty))"
proof (intro conjI allI impI)
  fix pre name d post
  assume a: "all_sheets = pre @ (name, d) # post \<and> contains ''propert'' (lower name)
      \<and> (\<forall>s\<in>set pre. \<not> contains ''propert'' (lower (fst s)))"
  then have "\<forall>s\<in>set pre. \<not> (case s of (name, props_df) \<Rightarrow> contains ''propert'' (lower name))"
    by (auto simp: case_prod_beta)
  moreover from a have "case (name, d) of (name, props_df) \<Rightarrow> contains ''propert'' (lower name)"
    by simp
  ultimately have "find (\<lambda>(name, props_df). contains ''propert'' (lower name))
      (pre @ (name, d) # post) = Some (name, d)"
    by (rule find_append_first)
  with a show "load_props all_sheets =
          (if ''name'' \<in> set (columns d) \<and> ''value'' \<in> set (columns d) then dict_zip (rows d)
           else Map.empty)"
    by (simp add: load_props_def)
next
  assume "\<forall>s\<in>set all_sheets. \<not> contains ''propert'' (lower (fst s))"
  then have "find (\<lambda>(name, props_df). contains ''propert'' (lower name)) all_sheets = None"
    by (auto simp: find_None_iff)
  then show "load_props all_sheets = Map.empty"
    by (simp add: load_props_def)
next
  fix rs k
  show "dict_zip rs k =
         (case filter (\<lambda>r. r ''name'' = k) rs of
            [] \<Rightarrow> None
          | m # ms \<Rightarrow> Some (last (m # ms) ''value''))"
    by (rule dict_zip_last)
next
  fix df ps
  assume "load_data ext all_sheets csv = Inr (df, ps)"
  then show "ps = (if lower ext = ''.xlsx'' \<or> lower ext = ''.xls'' then load_props all_sheets
               else Map.empty)"
    by (rule load_data_props)
qed

theorem load_props_first_propert_sheet_witness:
  "load_props lowercase_workbook = dict_zip (rows (props_sheet ''name'' ''value''))
   \<and> dict_zip (rows (props_sheet ''name'' ''value'')) (Str ''Symbol'') = Some (Str ''ES'')"
proof -
  have w: "lowercase_workbook
      = [(''List of trades'', boundary_table)] @ (''Properties'', props_sheet ''name'' ''value'') # []"
    by (simp add: lowercase_workbook_def)
  have p: "contains ''propert'' (lower ''Properties'')" by code_simp
  have n: "\<not> contains ''propert'' (lower ''List of trades'')" by code_simp
  then have pre: "\<forall>s\<in>set [(''List of trades'', boundary_table)].
      \<not> contains ''propert'' (lower (fst s))" by simp
  have cols: "''name'' \<in> set (columns (props_sheet ''name'' ''value''))
      \<and> ''value'' \<in> set (columns (props_sheet ''name'' ''value''))"
    by (simp add: props_sheet_def)
  from w p pre load_props_first_propert_sheet [of lowercase_workbook]
  have "load_props lowercase_workbook =
          (if ''name'' \<in> set (columns (props_sheet ''name'' ''value''))
              \<and> ''value'' \<in> set (columns (props_sheet ''name'' ''value''))
           then dict_zip (rows (props_sheet ''name'' ''value''))
           else Map.empty)"
    by blast
  with cols have a: "load_props lowercase_workbook = dict_zip (rows (props_sheet ''name'' ''value''))"
    by simp
  have b: "dict_zip (rows (props_sheet ''name'' ''value'')) (Str ''Symbol'') = Some (Str ''ES'')"
    by code_simp
  from a b show ?thesis by simp
qed

text \<open>
  The claim as it is written fails on a properties sheet whose columns are headed
  \<^verbatim>\<open>Name\<close> and \<^verbatim>\<open>Value\<close>: they match after lowercasing, and the specification's rule
  builds the mapping from them, but the loader compares with the literal lowercase names
  and returns no metadata.
\<close>

theorem capitalised_columns_counterexample:
  "contains ''propert'' (lower ''Properties'')
   \<and> map lower (columns (props_sheet ''Name'' ''Value'')) = [''name'', ''value'']
   \<and> spec_load_props capitalised_workbook (Str ''Symbol'') = Some (Str ''ES'')
   \<and> load_props capitalised_workbook (Str ''Symbol'') = None
   \<and> (case load_data ''.xlsx'' capitalised_workbook boundary_table of
         Inr (df, ps) \<Rightarrow> ps (Str ''Symbol'') = None \<and> ps (Str ''Timeframe'') = None
       | Inl e \<Rightarrow> False)"
proof -
  have a: "contains ''propert'' (lower ''Properties'')" by code_simp
  have b: "map lower (columns (props_sheet ''Name'' ''Value'')) = [''name'', ''value'']"
    by code_simp
  have c: "spec_load_props capitalised_workbook (Str ''Symbol'') = Some (Str ''ES'')"
    by code_simp
  have d: "load_props capitalised_workbook (Str ''Symbol'') = None" by code_simp
  have e: "case load_data ''.xlsx'' capitalised_workbook boundary_table of
         Inr (df, ps) \<Rightarrow> ps (Str ''Symbol'') = None \<and> ps (Str ''Timeframe'') = None
       | Inl e \<Rightarrow> False"
    by code_simp
  from a b c d e show ?thesis by simp
qed

section \<open>Properties of the renderer\<close>

subsection \<open>Sorting\<close>

lemma contract_indices:
  assumes "argsort_contract argsort"
  shows "mset (argsort ks) = mset [0 ..< length ks]"
    and "set (argsort ks) = {0 ..< length ks}"
    and "sorted (map (\<lambda>i. ks ! i) (argsort ks))"
proof -
  from assms show m: "mset (argsort ks) = mset [0 ..< length ks]"
    by (simp add: argsort_contract_def)
  from m have "set_mset (mset (argsort ks)) = set_mset (mset [0 ..< length ks])" by simp
  then show "set (argsort ks) = {0 ..< length ks}" by simp
  from assms show "sorted (map (\<lambda>i. ks ! i) (argsort ks))"
    by (simp add: argsort_contract_def)
qed

lemma take_rows_mset:
  assumes "mset indexer = mset [0 ..< length df]"
  shows "mset (take_rows df indexer) = mset df"
proof -
  have "mset (take_rows df indexer) = image_mset (\<lambda>i. df ! i) (mset indexer)"
    by (simp add: take_rows_def)
  also have "\<dots> = image_mset (\<lambda>i. df ! i) (mset [0 ..< length df])"
    using assms by simp
  also have "\<dots> = mset (map (\<lambda>i. df ! i) [0 ..< length df])" by simp
  also have "\<dots> = mset df" by (simp add: map_nth)
  finally show ?thesis .
qed

lemma take_rows_keys:
  assumes "set indexer \<subseteq> {0 ..< length df}"
  shows "map key (take_rows df indexer) = map (\<lambda>i. map key df ! i) indexer"
  using assms by (auto simp: take_rows_def)

lemma take_rows_sorted:
  assumes c: "argsort_contract argsort"
  shows "sorted (map key (take_rows df (argsort (map key df))))"
    and "mset (take_rows df (argsort (map key df))) = mset df"
proof -
  from contract_indices(2) [OF c, of "map key df"]
  have s: "set (argsort (map key df)) \<subseteq> {0 ..< length df}" by simp
  from take_rows_keys [OF s, where key = key] contract_indices(3) [OF c, of "map key df"]
  show "sorted (map key (take_rows df (argsort (map key df))))" by (simp only:)
  from contract_indices(1) [OF c, of "map key df"]
  have "mset (argsort (map key df)) = mset [0 ..< length df]" by simp
  then show "mset (take_rows df (argsort (map key df))) = mset df"
    by (rule take_rows_mset)
qed

lemma take_rows_stable:
  assumes c: "argsort_contract argsort" and st: "argsort_stable argsort"
  shows "filter (\<lambda>r. key r = k) (take_rows df (argsort (map key df))) = filter (\<lambda>r. key r = k) df"
proof -
  let ?ix = "argsort (map key df)"
  from contract_indices(2) [OF c, of "map key df"]
  have s: "set ?ix = {0 ..< length df}" by simp
  have "filter (\<lambda>r. key r = k) (take_rows df ?ix)
      = map (\<lambda>i. df ! i) (filter (\<lambda>i. key (df ! i) = k) ?ix)"
    by (simp add: take_rows_def filter_map comp_def)
  also have "filter (\<lambda>i. key (df ! i) = k) ?ix = filter (\<lambda>i. map key df ! i = k) ?ix"
    using s by (intro filter_cong) auto
  also have "\<dots> = filter (\<lambda>i. map key df ! i = k) [0 ..< length df]"
    using st by (simp add: argsort_stable_def)
  also have "\<dots> = filter (\<lambda>i. key (df ! i) = k) [0 ..< length df]"
    by (intro filter_cong) auto
  also have "map (\<lambda>i. df ! i) (filter (\<lambda>i. key (df ! i) = k) [0 ..< length df])
      = filter (\<lambda>r. key r = k) (map (\<lambda>i. df ! i) [0 ..< length df])"
    by (simp add: filter_map comp_def)
  also have "\<dots> = filter (\<lambda>r. key r = k) df" by (simp add: map_nth)
  finally show ?thesis .
qed

lemma sort_values_descending:
  assumes c: "argsort_contract argsort"
  shows "sorted_wrt (\<lambda>a b. key b \<le> key a) (sort_values argsort key False df)"
    and "mset (sort_values argsort key False df) = mset df"
proof -
  let ?xs = "take_rows (rev df) (argsort (map key (rev df)))"
  from take_rows_sorted(1) [OF c, where key = key and df = "rev df"]
  have "sorted_wrt (\<lambda>a b. key a \<le> key b) ?xs" by (simp add: sorted_map)
  then have "sorted_wrt (\<lambda>a b. key b \<le> key a) (rev ?xs)"
    by (simp add: sorted_wrt_rev)
  then show "sorted_wrt (\<lambda>a b. key b \<le> key a) (sort_values argsort key False df)"
    by (simp add: sort_values_def)
  from take_rows_sorted(2) [OF c, where key = key and df = "rev df"]
  show "mset (sort_values argsort key False df) = mset df"
    by (simp add: sort_values_def)
qed

lemma sort_values_ascending:
  assumes c: "argsort_contract argsort"
  shows "sorted_wrt (\<lambda>a b. key a \<le> key b) (sort_values argsort key True df)"
    and "mset (sort_values argsort key True df) = mset df"
  using take_rows_sorted [OF c, where key = key and df = df] by (simp_all add: sort_values_def sorted_map)

lemma sort_values_descending_stable:
  assumes c: "argsort_contract argsort" and st: "argsort_stable argsort"
  shows "filter (\<lambda>r. key r = k) (sort_values argsort key False df) = filter (\<lambda>r. key r = k) df"
proof -
  have "filter (\<lambda>r. key r = k) (sort_values argsort key False df)
      = rev (filter (\<lambda>r. key r = k) (take_rows (rev df) (argsort (map key (rev df)))))"
    by (simp add: sort_values_def rev_filter)
  also have "\<dots> = rev (filter (\<lambda>r. key r = k) (rev df))"
    by (simp only: take_rows_stable [OF c st])
  also have "\<dots> = filter (\<lambda>r. key r = k) df" by (simp add: rev_filter)
  finally show ?thesis .
qed

lemma stable_argsort_contract: "argsort_contract stable_argsort"
  by (simp add: argsort_contract_def stable_argsort_def)

lemma stable_argsort_stable: "argsort_stable stable_argsort"
  by (simp add: argsort_stable_def stable_argsort_def sort_key_stable)

lemma sort_values_nonempty:
  "argsort_contract argsort \<Longrightarrow> df \<noteq> [] \<Longrightarrow> sort_values argsort key False df \<noteq> []"
  using sort_values_descending(2) [where argsort = argsort and key = key and df = df] by (metis mset_zero_iff)

subsection \<open>The report\<close>


lemma report_body_text:
  assumes c: "argsort_contract argsort" and ne: "cycle_stats \<noteq> []"
  shows "report_body argsort py_str cycle_stats overall_stats props =
     Inr ((report_header (props_get py_str props ''Symbol'' ''Unknown'')
             (props_get py_str props ''Timeframe'' ''Unknown'')
             (props_get py_str props ''Stop Loss (points)'' ''N/A'')
             (props_get py_str props ''Take Profit (points)'' ''N/A'')
             (initial_capital_text props) overall_stats
           @ concat (map summary_row cycle_stats) @ rankings_heading)
          @ enumerate_lines win_rate_line 1 (ranked_by_win_rate argsort cycle_stats)
          @ profitability_heading
          @ enumerate_lines pnl_line 1 (ranked_by_pnl argsort cycle_stats)
          @ (long_short_heading
             @ concat (map long_short_row cycle_stats)
             @ insights_heading
             @ concat (map high_wr_row (take 3 (high_wr_cycles argsort cycle_stats)))
             @ low_wr_heading
             @ concat (map low_wr_row (take 3 (low_wr_cycles argsort cycle_stats)))
             @ recommendations (hd (ranked_by_win_rate argsort cycle_stats))
                 (last (ranked_by_win_rate argsort cycle_stats))
                 (hd (ranked_by_pnl argsort cycle_stats))
                 (last (ranked_by_pnl argsort cycle_stats)) overall_stats)
          @ enumerate_lines schedule_line 1 (ranked_by_win_rate argsort cycle_stats))"
proof -
  from sort_values_nonempty [OF c ne]
  have "ranked_by_win_rate argsort cycle_stats \<noteq> []" "ranked_by_pnl argsort cycle_stats \<noteq> []"
    by (simp_all add: ranked_by_win_rate_def ranked_by_pnl_def)
  with ne show ?thesis
    by (simp add: report_body_def Let_def)
qed

lemma strftime_report_minute:
  assumes "dt_year n1 = dt_year n2" "dt_month n1 = dt_month n2" "dt_day n1 = dt_day n2"
    "dt_hour n1 = dt_hour n2" "dt_minute n1 = dt_minute n2"
  shows "footer n1 = footer n2"
  using assms by (simp add: footer_def strftime_report_def)

lemma generate_report_cases:
  "(\<exists>e. \<forall>now. generate_report argsort py_str now cs os props = Inl e)
   \<or> (\<exists>body. \<forall>now. generate_report argsort py_str now cs os props = Inr (body @ footer now))"
  by (cases "report_body argsort py_str cs os props") (simp_all add: generate_report_def)

text \<open>
  C3 (as amended). Whatever order the library's sort gives to equal keys, the report's
  "By win rate" list holds every cycle row once, in descending order of win rate, and its
  "By profitability" list holds every cycle row once, in descending order of total P&L;
  rows with equal keys keep their cycle-index order when the sort kind in use is stable.
\<close>

theorem rankings_descending:
  "argsort_contract argsort \<Longrightarrow>
     sorted_wrt (\<lambda>a b. win_rate b \<le> win_rate a) (ranked_by_win_rate argsort cs)
     \<and> mset (ranked_by_win_rate argsort cs) = mset cs
     \<and> sorted_wrt (\<lambda>a b. total_pnl b \<le> total_pnl a) (ranked_by_pnl argsort cs)
     \<and> mset (ranked_by_pnl argsort cs) = mset cs
     \<and> (argsort_stable argsort \<longrightarrow>
          (\<forall>k. filter (\<lambda>r. win_rate r = k) (ranked_by_win_rate argsort cs)
                 = filter (\<lambda>r. win_rate r = k) cs)
          \<and> (\<forall>k. filter (\<lambda>r. total_pnl r = k) (ranked_by_pnl argsort cs)
                 = filter (\<lambda>r. total_pnl r = k) cs))
     \<and> (cs \<noteq> [] \<longrightarrow>
          (\<exists>pre post. report_body argsort py_str cs os props =
             Inr (pre @ enumerate_lines win_rate_line 1 (ranked_by_win_rate argsort cs)
                  @ profitability_heading
                  @ enumerate_lines pnl_line 1 (ranked_by_pnl argsort cs) @ post)))"
proof -
  assume c: "argsort_contract argsort"
  have w: "sorted_wrt (\<lambda>a b. win_rate b \<le> win_rate a) (ranked_by_win_rate argsort cs)"
    "mset (ranked_by_win_rate argsort cs) = mset cs"
    using sort_values_descending [OF c, where key = win_rate and df = cs]
    by (simp_all add: ranked_by_win_rate_def)
  have p: "sorted_wrt (\<lambda>a b. total_pnl b \<le> total_pnl a) (ranked_by_pnl argsort cs)"
    "mset (ranked_by_pnl argsort cs) = mset cs"
    using sort_values_descending [OF c, where key = total_pnl and df = cs]
    by (simp_all add: ranked_by_pnl_def)
  have st: "argsort_stable argsort \<longrightarrow>
          (\<forall>k. filter (\<lambda>r. win_rate r = k) (ranked_by_win_rate argsort cs)
                 = filter (\<lambda>r. win_rate r = k) cs)
          \<and> (\<forall>k. filter (\<lambda>r. total_pnl r = k) (ranked_by_pnl argsort cs)
                 = filter (\<lambda>r. total_pnl r = k) cs)"
  proof (intro impI conjI allI)
    fix k
    assume s: "argsort_stable argsort"
    show "filter (\<lambda>r. win_rate r = k) (ranked_by_win_rate argsort cs)
                 = filter (\<lambda>r. win_rate r = k) cs"
      using sort_values_descending_stable [OF c s, where key = win_rate and k = k and df = cs]
      by (simp add: ranked_by_win_rate_def)
    show "filter (\<lambda>r. total_pnl r = k) (ranked_by_pnl argsort cs)
                 = filter (\<lambda>r. total_pnl r = k) cs"
      using sort_values_descending_stable [OF c s, where key = total_pnl and k = k and df = cs]
      by (simp add: ranked_by_pnl_def)
  qed
  have rep: "cs \<noteq> [] \<longrightarrow>
          (\<exists>pre post. report_body argsort py_str cs os props =
             Inr (pre @ enumerate_lines win_rate_line 1 (ranked_by_win_rate argsort cs)
                  @ profitability_heading
                  @ enumerate_lines pnl_line 1 (ranked_by_pnl argsort cs) @ post))"
  proof
    assume ne: "cs \<noteq> []"
    show "\<exists>pre post. report_body argsort py_str cs os props =
             Inr (pre @ enumerate_lines win_rate_line 1 (ranked_by_win_rate argsort cs)
                  @ profitability_heading
                  @ enumerate_lines pnl_line 1 (ranked_by_pnl argsort cs) @ post)"
      by (intro exI) (rule report_body_text [OF c ne])
  qed
  show ?thesis
    by (intro conjI) (rule w(1), rule w(2), rule p(1), rule p(2), rule st, rule rep)
qed

theorem rankings_descending_witness:
  "argsort_contract stable_argsort \<and> argsort_stable stable_argsort
   \<and> sorted_wrt (\<lambda>a b. win_rate b \<le> win_rate a)
        (ranked_by_win_rate stable_argsort (calculate_cycle_stats tied_entries))
   \<and> filter (\<lambda>r. win_rate r = 100)
        (ranked_by_win_rate stable_argsort (calculate_cycle_stats tied_entries))
       = filter (\<lambda>r. win_rate r = 100) (calculate_cycle_stats tied_entries)
   \<and> map cycle (ranked_by_win_rate stable_argsort (calculate_cycle_stats tied_entries)) = [0, 1]
   \<and> map cycle (ranked_by_pnl stable_argsort (calculate_cycle_stats tied_entries)) = [0, 1]"
proof -
  note t = rankings_descending [OF stable_argsort_contract,
      of "calculate_cycle_stats tied_entries" no_str "calculate_overall_stats tied_entries" Map.empty]
  from t have a: "sorted_wrt (\<lambda>a b. win_rate b \<le> win_rate a)
        (ranked_by_win_rate stable_argsort (calculate_cycle_stats tied_entries))"
    by blast
  from t stable_argsort_stable have b: "filter (\<lambda>r. win_rate r = 100)
        (ranked_by_win_rate stable_argsort (calculate_cycle_stats tied_entries))
       = filter (\<lambda>r. win_rate r = 100) (calculate_cycle_stats tied_entries)"
    by blast
  have c: "map cycle (ranked_by_win_rate stable_argsort (calculate_cycle_stats tied_entries)) = [0, 1]"
    by code_simp
  have d: "map cycle (ranked_by_pnl stable_argsort (calculate_cycle_stats tied_entries)) = [0, 1]"
    by code_simp
  from a b c d stable_argsort_contract stable_argsort_stable show ?thesis by blast
qed

text \<open>
  The claim as it is written fails with the sort numpy runs where the processor has
  AVX-512. Of four cycles with the win rates 0, 0, 100, 100 and the total P&L -5, -5, 10,
  10, the two tied pairs are both listed in reverse cycle-index order, 3, 2, 1, 0, where
  a stable sort lists 2, 3, 0, 1.
\<close>

theorem tied_cycles_reordered_counterexample:
  "map cycle (calculate_cycle_stats four_cycles) = [0, 1, 2, 3]
   \<and> map win_rate (calculate_cycle_stats four_cycles) = [0, 0, 100, 100]
   \<and> map total_pnl (calculate_cycle_stats four_cycles) = [- 5, - 5, 10, 10]
   \<and> argsort_8_64bit [100, 100, 0, 0] = [3, 2, 1, 0]
   \<and> map cycle (ranked_by_win_rate argsort_8_64bit (calculate_cycle_stats four_cycles))
        = [3, 2, 1, 0]
   \<and> map cycle (ranked_by_pnl argsort_8_64bit (calculate_cycle_stats four_cycles))
        = [3, 2, 1, 0]
   \<and> map cycle (ranked_by_win_rate stable_argsort (calculate_cycle_stats four_cycles))
        = [2, 3, 0, 1]
   \<and> map cycle (ranked_by_pnl stable_argsort (calculate_cycle_stats four_cycles))
        = [2, 3, 0, 1]"
proof -
  have a: "map cycle (calculate_cycle_stats four_cycles) = [0, 1, 2, 3]" by code_simp
  have b: "map win_rate (calculate_cycle_stats four_cycles) = [0, 0, 100, 100]" by code_simp
  have c: "map total_pnl (calculate_cycle_stats four_cycles) = [- 5, - 5, 10, 10]" by code_simp
  have d: "argsort_8_64bit [100, 100, 0, 0] = [3, 2, 1, 0]" by code_simp
  have e: "map cycle (ranked_by_win_rate argsort_8_64bit (calculate_cycle_stats four_cycles))
        = [3, 2, 1, 0]"
    by code_simp
  have f: "map cycle (ranked_by_pnl argsort_8_64bit (calculate_cycle_stats four_cycles))
        = [3, 2, 1, 0]"
    by code_simp
  have g: "map cycle (ranked_by_win_rate stable_argsort (calculate_cycle_stats four_cycles))
        = [2, 3, 0, 1]"
    by code_simp
  have h: "map cycle (ranked_by_pnl stable_argsort (calculate_cycle_stats four_cycles))
        = [2, 3, 0, 1]"
    by code_simp
  show ?thesis
    by (intro conjI) (rule a, rule b, rule c, rule d, rule e, rule f, rule g, rule h)
qed



text \<open>
  C4 (as amended). The report is the text determined by the cycle statistics, the overall
  statistics and the metadata, followed by a footer that holds the time of generation to
  the minute: two renderings of the same inputs either fail alike or differ in the footer
  only, and they are identical when the clock readings agree up to the minute.
\<close>

theorem report_fixed_up_to_footer:
  "(dt_year n1 = dt_year n2 \<and> dt_month n1 = dt_month n2 \<and> dt_day n1 = dt_day n2
      \<and> dt_hour n1 = dt_hour n2 \<and> dt_minute n1 = dt_minute n2 \<longrightarrow>
        generate_report argsort py_str n1 cs os props
          = generate_report argsort py_str n2 cs os props)
   \<and> ((\<exists>e. generate_report argsort py_str n1 cs os props = Inl e
            \<and> generate_report argsort py_str n2 cs os props = Inl e)
        \<or> (\<exists>body. generate_report argsort py_str n1 cs os props = Inr (body @ footer n1)
              \<and> generate_report argsort py_str n2 cs os props = Inr (body @ footer n2)))"
proof (intro conjI impI)
  assume "dt_year n1 = dt_year n2 \<and> dt_month n1 = dt_month n2 \<and> dt_day n1 = dt_day n2
      \<and> dt_hour n1 = dt_hour n2 \<and> dt_minute n1 = dt_minute n2"
  then have "footer n1 = footer n2" by (intro strftime_report_minute) simp_all
  then show "generate_report argsort py_str n1 cs os props
          = generate_report argsort py_str n2 cs os props"
    by (simp add: generate_report_def split: sum.splits)
next
  show "(\<exists>e. generate_report argsort py_str n1 cs os props = Inl e
            \<and> generate_report argsort py_str n2 cs os props = Inl e)
        \<or> (\<exists>body. generate_report argsort py_str n1 cs os props = Inr (body @ footer n1)
              \<and> generate_report argsort py_str n2 cs os props = Inr (body @ footer n2))"
  proof (cases "report_body argsort py_str cs os props")
    case (Inl e)
    then have g: "generate_report argsort py_str n1 cs os props = Inl e
            \<and> generate_report argsort py_str n2 cs os props = Inl e"
      by (simp add: generate_report_def)
    show ?thesis by (intro disjI1 exI) (rule g)
  next
    case (Inr body)
    then have g: "generate_report argsort py_str n1 cs os props = Inr (body @ footer n1)
              \<and> generate_report argsort py_str n2 cs os props = Inr (body @ footer n2)"
      by (simp add: generate_report_def)
    show ?thesis by (intro disjI2 exI) (rule g)
  qed
qed

theorem report_fixed_up_to_footer_witness:
  "dt_second clock_a \<noteq> dt_second clock_b
   \<and> generate_report stable_argsort no_str clock_a (calculate_cycle_stats two_thirds)
        (calculate_overall_stats two_thirds) Map.empty
     = generate_report stable_argsort no_str clock_b (calculate_cycle_stats two_thirds)
        (calculate_overall_stats two_thirds) Map.empty"
proof -
  have m: "dt_year clock_a = dt_year clock_b \<and> dt_month clock_a = dt_month clock_b
      \<and> dt_day clock_a = dt_day clock_b \<and> dt_hour clock_a = dt_hour clock_b
      \<and> dt_minute clock_a = dt_minute clock_b"
    by (simp add: clock_a_def clock_b_def)
  have s: "dt_second clock_a \<noteq> dt_second clock_b"
    by (simp add: clock_a_def clock_b_def)
  note t = report_fixed_up_to_footer [of clock_a clock_b stable_argsort no_str
      "calculate_cycle_stats two_thirds" "calculate_overall_stats two_thirds" Map.empty,
      THEN conjunct1]
  from t m have "generate_report stable_argsort no_str clock_a (calculate_cycle_stats two_thirds)
        (calculate_overall_stats two_thirds) Map.empty
     = generate_report stable_argsort no_str clock_b (calculate_cycle_stats two_thirds)
        (calculate_overall_stats two_thirds) Map.empty"
    by (rule mp)
  with s show ?thesis by (rule conjI)
qed

text \<open>
  The claim as it is written fails: the same statistics rendered one minute apart give
  different texts.
\<close>

theorem report_clock_counterexample:
  "generate_report stable_argsort no_str clock_a (calculate_cycle_stats two_thirds)
        (calculate_overall_stats two_thirds) Map.empty
     \<noteq> generate_report stable_argsort no_str clock_c (calculate_cycle_stats two_thirds)
        (calculate_overall_stats two_thirds) Map.empty"
proof -
  have "map cycle (calculate_cycle_stats two_thirds) = [0]" by code_simp
  then have ne: "calculate_cycle_stats two_thirds \<noteq> []" by auto
  have "\<exists>body. report_body stable_argsort no_str (calculate_cycle_stats two_thirds)
      (calculate_overall_stats two_thirds) Map.empty = Inr body"
    by (intro exI) (rule report_body_text [OF stable_argsort_contract ne])
  then obtain body where b: "report_body stable_argsort no_str (calculate_cycle_stats two_thirds)
      (calculate_overall_stats two_thirds) Map.empty = Inr body" ..
  have f: "footer clock_a \<noteq> footer clock_c" by code_simp
  from b f show ?thesis by (simp add: generate_report_def)
qed

end
